theory Spec2Isabelle
  imports Complex_Main
begin

section \<open>Cartago seismic viewer: the model\<close>

text \<open>
  The repository's \<^verbatim>\<open>src/app.js\<close> holds two revisions of the class
  \<^verbatim>\<open>CartagoResilienteApp\<close>: the map revision (lines 1 to 871, a flat map with
  depth lines) and the planet revision (lines 872 to 1686, markers on a sphere). Most
  methods are the same text up to constants, so the model takes the revision as a
  parameter and branches on it where the two texts differ.
\<close>

datatype revision = MapRev | PlanetRev

subsection \<open>JavaScript numbers\<close>

text \<open>
  A number is \<open>NaN\<close> or an exact real. \<open>NaN\<close> is kept because the loader produces it
  and every comparison with it is false. Rounding, the two infinities and the sign of
  zero are left out of the model; a division by zero (an infinity or \<open>NaN\<close> in
  JavaScript) is \<open>NaN\<close> here, and the theorems that divide by a variable assume it is
  not zero.
\<close>

datatype jsnum = NaN | Fin real

fun js_add :: "jsnum \<Rightarrow> jsnum \<Rightarrow> jsnum" where
  "js_add (Fin a) (Fin b) = Fin (a + b)"
| "js_add _ _ = NaN"

fun js_sub :: "jsnum \<Rightarrow> jsnum \<Rightarrow> jsnum" where
  "js_sub (Fin a) (Fin b) = Fin (a - b)"
| "js_sub _ _ = NaN"

fun js_mul :: "jsnum \<Rightarrow> jsnum \<Rightarrow> jsnum" where
  "js_mul (Fin a) (Fin b) = Fin (a * b)"
| "js_mul _ _ = NaN"

fun js_div :: "jsnum \<Rightarrow> jsnum \<Rightarrow> jsnum" where
  "js_div (Fin a) (Fin b) = (if b = 0 then NaN else Fin (a / b))"
| "js_div _ _ = NaN"

fun js_neg :: "jsnum \<Rightarrow> jsnum" where
  "js_neg (Fin a) = Fin (- a)"
| "js_neg NaN = NaN"

text \<open>The remainder \<^verbatim>\<open>a % b\<close> truncates the quotient towards zero.\<close>

fun js_mod :: "jsnum \<Rightarrow> jsnum \<Rightarrow> jsnum" where
  "js_mod (Fin a) (Fin b) =
     (if b = 0 then NaN
      else Fin (a - b * of_int (if 0 \<le> a / b then \<lfloor>a / b\<rfloor> else \<lceil>a / b\<rceil>)))"
| "js_mod _ _ = NaN"

fun js_lt :: "jsnum \<Rightarrow> jsnum \<Rightarrow> bool" where
  "js_lt (Fin a) (Fin b) = (a < b)"
| "js_lt _ _ = False"

fun js_le :: "jsnum \<Rightarrow> jsnum \<Rightarrow> bool" where
  "js_le (Fin a) (Fin b) = (a \<le> b)"
| "js_le _ _ = False"

definition js_gt :: "jsnum \<Rightarrow> jsnum \<Rightarrow> bool" where
  "js_gt a b = js_lt b a"

definition js_ge :: "jsnum \<Rightarrow> jsnum \<Rightarrow> bool" where
  "js_ge a b = js_le b a"

fun js_min :: "jsnum \<Rightarrow> jsnum \<Rightarrow> jsnum" where
  "js_min (Fin a) (Fin b) = Fin (min a b)"
| "js_min _ _ = NaN"

fun js_floor :: "jsnum \<Rightarrow> jsnum" where
  "js_floor (Fin a) = Fin (of_int \<lfloor>a\<rfloor>)"
| "js_floor NaN = NaN"

fun js_sin :: "jsnum \<Rightarrow> jsnum" where
  "js_sin (Fin a) = Fin (sin a)"
| "js_sin NaN = NaN"

fun js_cos :: "jsnum \<Rightarrow> jsnum" where
  "js_cos (Fin a) = Fin (cos a)"
| "js_cos NaN = NaN"

definition js_pi :: jsnum where
  "js_pi = Fin pi"

text \<open>
  The number of rounds of \<^verbatim>\<open>for (let i = 0; i < n; i++)\<close>: the naturals below \<open>n\<close>,
  none when \<open>n\<close> is \<open>NaN\<close>.
\<close>

fun loopRounds :: "jsnum \<Rightarrow> nat" where
  "loopRounds (Fin n) = nat \<lceil>n\<rceil>"
| "loopRounds NaN = 0"

type_synonym vec3 = "jsnum \<times> jsnum \<times> jsnum"

definition vec_y :: "vec3 \<Rightarrow> jsnum" where
  "vec_y p = fst (snd p)"

definition set_y :: "jsnum \<Rightarrow> vec3 \<Rightarrow> vec3" where
  "set_y y p = (fst p, y, snd (snd p))"

subsection \<open>Records, markers, particle systems, timers\<close>

text \<open>
  A field of a row that is missing (\<^verbatim>\<open>parts[k]\<close> beyond the end of the array) is
  \<^verbatim>\<open>undefined\<close> in the source and \<open>None\<close> here.
\<close>

record earthquake =
  quake_id :: "string option"
  fecha :: "string option"
  hora :: "string option"
  latitud :: jsnum
  longitud :: jsnum
  profundidad :: jsnum
  magnitud :: jsnum
  departamento :: "string option"
  municipio :: "string option"

text \<open>
  A marker is the mesh with its \<^verbatim>\<open>userData\<close>. \<open>color\<close> is the material's colour,
  \<open>radius\<close> the radius of the sphere geometry, \<open>opacity\<close> the material's opacity,
  \<open>depthLine\<close> the opacity of the material of \<^verbatim>\<open>userData.depthLine\<close>, which only
  the map revision creates (\<open>None\<close> in the planet revision).
\<close>

record marker =
  quake :: earthquake
  originalColor :: nat
  originalScale :: jsnum
  originalPosition :: vec3
  color :: nat
  radius :: jsnum
  position :: vec3
  scale :: vec3
  opacity :: jsnum
  depthLine :: "jsnum option"

text \<open>
  A particle system: the position and velocity arrays hold one triple per particle
  (the source keeps them flat, three numbers per particle).
\<close>

record particles =
  positions :: "vec3 list"
  velocities :: "vec3 list"
  burstColor :: nat
  pointSize :: jsnum
  life :: jsnum
  pOpacity :: jsnum

text \<open>
  The callbacks the application hands to \<^verbatim>\<open>setInterval\<close>, \<^verbatim>\<open>setTimeout\<close> and
  \<^verbatim>\<open>requestAnimationFrame\<close>, each with the values its closure captured. A marker
  is captured by reference; the model names it by its index in \<^verbatim>\<open>earthquakeMarkers\<close>,
  an array that only grows while the scene is built.
\<close>

datatype task =
    HistoryTick
  | Pulse nat jsnum jsnum
  | ChaosBurst nat
  | RainTimeout nat jsnum jsnum
  | FallTimeout nat jsnum
  | Fall nat jsnum jsnum jsnum jsnum
  | DblClickBurst

text \<open>
  \<open>Pulse i startTime duration\<close>; \<open>RainTimeout i startY fallDuration\<close> (map revision);
  \<open>FallTimeout i duration\<close> (planet revision, \<^verbatim>\<open>animateMarkerFall\<close>);
  \<open>Fall i startY targetY duration startTime\<close>.
\<close>

datatype timer =
    Interval jsnum task
  | Timeout jsnum task
  | AnimationFrame task

fun timer_task :: "timer \<Rightarrow> task" where
  "timer_task (Interval d t) = t"
| "timer_task (Timeout d t) = t"
| "timer_task (AnimationFrame t) = t"

fun is_interval :: "timer \<Rightarrow> bool" where
  "is_interval (Interval d t) = True"
| "is_interval _ = False"

datatype js_error = TypeError | FetchError

text \<open>
  The application object. \<open>timers\<close> are the callbacks registered with the browser and
  not yet cancelled or run, each under the handle the browser returned; handles are
  positive and never reused. \<open>disposed\<close> collects the particle systems whose geometry
  and material were disposed. The camera, the DOM and the frame counter are not part of
  the model.
\<close>

record app =
  earthquakes :: "earthquake list"
  earthquakeMarkers :: "marker list"
  particleSystems :: "particles list"
  hoveredMarker :: "nat option"
  currentMode :: string
  clickCount :: nat
  modeInterval :: "nat option"
  historyIndex :: nat
  lastTime :: jsnum
  timers :: "(nat \<times> timer) list"
  nextTimer :: nat
  disposed :: "particles list"

definition constructor :: app where
  "constructor =
     \<lparr>earthquakes = [], earthquakeMarkers = [], particleSystems = [],
      hoveredMarker = None, currentMode = ''explorer'', clickCount = 0,
      modeInterval = None, historyIndex = 0, lastTime = Fin 0,
      timers = [], nextTimer = 1, disposed = []\<rparr>"

text \<open>Registering a callback returns a fresh handle; clearing removes the handle.\<close>

definition register :: "timer \<Rightarrow> app \<Rightarrow> app" where
  "register t s = s\<lparr>timers := timers s @ [(nextTimer s, t)], nextTimer := Suc (nextTimer s)\<rparr>"

definition clearInterval :: "nat \<Rightarrow> app \<Rightarrow> app" where
  "clearInterval h s = s\<lparr>timers := filter (\<lambda>e. fst e \<noteq> h) (timers s)\<rparr>"

definition updateMarker :: "nat \<Rightarrow> (marker \<Rightarrow> marker) \<Rightarrow> app \<Rightarrow> app" where
  "updateMarker i f s =
     s\<lparr>earthquakeMarkers := (earthquakeMarkers s)[i := f (earthquakeMarkers s ! i)]\<rparr>"

subsection \<open>Depth and magnitude mappings\<close>

definition getColorByDepth :: "jsnum \<Rightarrow> nat" where
  "getColorByDepth depth =
     (if js_lt depth (Fin 20) then 0xff4444
      else if js_lt depth (Fin 60) then 0xffaa00
      else 0x4444ff)"

text \<open>
  The expression for \<^verbatim>\<open>size\<close> in \<^verbatim>\<open>createEarthquakeMarkers\<close>:
  \<^verbatim>\<open>0.3 + (quake.magnitud / 3.4) * 0.8\<close> in the map revision,
  \<^verbatim>\<open>0.08 + (quake.magnitud / 3.4) * 0.25\<close> in the planet revision.
\<close>

definition markerSize :: "revision \<Rightarrow> jsnum \<Rightarrow> jsnum" where
  "markerSize v m =
     (case v of
        MapRev \<Rightarrow> js_add (Fin 0.3) (js_mul (js_div m (Fin 3.4)) (Fin 0.8))
      | PlanetRev \<Rightarrow> js_add (Fin 0.08) (js_mul (js_div m (Fin 3.4)) (Fin 0.25)))"

subsection \<open>Projection and marker creation\<close>

text \<open>\<^verbatim>\<open>latLngToXZ\<close> with the bounds and the scale of the constructor (map revision).\<close>

definition latLngToXZ :: "jsnum \<Rightarrow> jsnum \<Rightarrow> jsnum \<times> jsnum" where
  "latLngToXZ lat lng =
     (let normLat = js_div (js_sub lat (Fin 4.61)) (js_sub (Fin 4.82) (Fin 4.61));
          normLng = js_div (js_sub lng (Fin (- 76.01))) (js_sub (Fin (- 75.82)) (Fin (- 76.01)));
          x = js_mul (js_sub normLng (Fin 0.5)) (Fin 100);
          z = js_mul (js_neg (js_sub normLat (Fin 0.5))) (Fin 100)
      in (x, z))"

definition depthToY :: "jsnum \<Rightarrow> jsnum" where
  "depthToY depth = js_mul (js_neg (js_div depth (Fin 150))) (Fin 50)"

definition markerPosition :: "revision \<Rightarrow> earthquake \<Rightarrow> vec3" where
  "markerPosition v q =
     (case v of
        MapRev \<Rightarrow>
          (let xz = latLngToXZ (latitud q) (longitud q);
               y = depthToY (profundidad q)
           in (fst xz, y, snd xz))
      | PlanetRev \<Rightarrow>
          (let phi = js_mul (js_sub (Fin 90) (latitud q)) (js_div js_pi (Fin 180));
               theta = js_mul (js_add (longitud q) (Fin 180)) (js_div js_pi (Fin 180));
               r = Fin 5.15;
               x = js_neg (js_mul (js_mul r (js_sin phi)) (js_cos theta));
               y = js_mul r (js_cos phi);
               z = js_mul (js_mul r (js_sin phi)) (js_sin theta)
           in (x, y, z)))"

text \<open>The mesh built by one round of the loop of \<^verbatim>\<open>createEarthquakeMarkers\<close>.\<close>

definition newMarker :: "revision \<Rightarrow> earthquake \<Rightarrow> marker" where
  "newMarker v q =
     (let pos = markerPosition v q;
          col = getColorByDepth (profundidad q);
          sz = markerSize v (magnitud q)
      in \<lparr>quake = q, originalColor = col, originalScale = sz, originalPosition = pos,
          color = col, radius = sz, position = pos, scale = (Fin 1, Fin 1, Fin 1),
          opacity = Fin 0.9,
          depthLine = (case v of MapRev \<Rightarrow> Some (Fin 0.3) | PlanetRev \<Rightarrow> None)\<rparr>)"

definition createEarthquakeMarkers :: "revision \<Rightarrow> app \<Rightarrow> app" where
  "createEarthquakeMarkers v s =
     fold (\<lambda>q s'. s'\<lparr>earthquakeMarkers := earthquakeMarkers s' @ [newMarker v q]\<rparr>)
       (earthquakes s) s"

subsection \<open>Data loader\<close>

text \<open>
  \<^verbatim>\<open>String.prototype.split\<close> with a one-character separator, and
  \<^verbatim>\<open>String.prototype.trim\<close> over the ASCII white space and line terminators.
  \<^verbatim>\<open>parseFloat\<close> is the browser's; its value on a string is a parameter \<open>pf\<close>
  of the model, and its value on \<^verbatim>\<open>undefined\<close> is \<open>NaN\<close>. A text that
  \<^verbatim>\<open>parseFloat\<close> reads as an infinity is outside the model, as the infinities are.
\<close>

fun js_split :: "char \<Rightarrow> string \<Rightarrow> string list" where
  "js_split c [] = [[]]"
| "js_split c (x # xs) =
     (if x = c then [] # js_split c xs
      else (case js_split c xs of [] \<Rightarrow> [[x]] | y # ys \<Rightarrow> (x # y) # ys))"

definition isWhiteSpace :: "char \<Rightarrow> bool" where
  "isWhiteSpace c =
     (c = CHR 0x09 \<or> c = CHR 0x0A \<or> c = CHR 0x0B \<or> c = CHR 0x0C \<or> c = CHR 0x0D \<or> c = CHR 0x20)"

definition trim :: "string \<Rightarrow> string" where
  "trim s = rev (dropWhile isWhiteSpace (rev (dropWhile isWhiteSpace s)))"

definition part :: "string list \<Rightarrow> nat \<Rightarrow> string option" where
  "part parts k = (if k < length parts then Some (parts ! k) else None)"

definition parseFloat :: "(string \<Rightarrow> jsnum) \<Rightarrow> string option \<Rightarrow> jsnum" where
  "parseFloat pf x = (case x of None \<Rightarrow> NaN | Some str \<Rightarrow> pf str)"

definition parseLine :: "(string \<Rightarrow> jsnum) \<Rightarrow> string \<Rightarrow> earthquake" where
  "parseLine pf line =
     (let parts = js_split (CHR 0x3B) line
      in \<lparr>quake_id = part parts 0, fecha = part parts 1, hora = part parts 2,
          latitud = parseFloat pf (part parts 3),
          longitud = parseFloat pf (part parts 4),
          profundidad = parseFloat pf (part parts 5),
          magnitud = parseFloat pf (part parts 6),
          departamento = part parts 7, municipio = part parts 8\<rparr>)"

text \<open>
  What the two awaited calls give: the promise of \<^verbatim>\<open>fetch\<close> or of
  \<^verbatim>\<open>response.text()\<close> is rejected, or the text arrives.
\<close>

datatype fetched = Rejected | Body string

text \<open>The body of the \<^verbatim>\<open>try\<close> block: an error or the new record list.\<close>

definition tryLoad :: "(string \<Rightarrow> jsnum) \<Rightarrow> fetched \<Rightarrow> js_error + earthquake list" where
  "tryLoad pf f =
     (case f of
        Rejected \<Rightarrow> Inl FetchError
      | Body text \<Rightarrow>
          (let lines = drop 1 (js_split (CHR 0x0A) text)
           in Inr (map (parseLine pf) (filter (\<lambda>line. trim line \<noteq> []) lines))))"

text \<open>
  The whole method: the \<^verbatim>\<open>catch\<close> block logs the error and returns. \<open>Inl\<close> would
  be an error that reaches the caller.
\<close>

definition loadEarthquakeData :: "(string \<Rightarrow> jsnum) \<Rightarrow> fetched \<Rightarrow> app \<Rightarrow> js_error + app" where
  "loadEarthquakeData pf f s =
     (case tryLoad pf f of
        Inl e \<Rightarrow> Inr s
      | Inr qs \<Rightarrow> Inr (s\<lparr>earthquakes := qs\<rparr>))"

subsection \<open>Particle bursts\<close>

text \<open>
  The three \<^verbatim>\<open>Math.random()\<close> values one particle draws, in the order of the source:
  speed, theta, phi.
\<close>

type_synonym spark = "real \<times> real \<times> real"

definition sparkSpeed :: "revision \<Rightarrow> real \<Rightarrow> jsnum" where
  "sparkSpeed v r =
     (case v of
        MapRev \<Rightarrow> js_add (Fin 0.15) (js_mul (Fin r) (Fin 0.4))
      | PlanetRev \<Rightarrow> js_add (Fin 0.1) (js_mul (Fin r) (Fin 0.3)))"

definition sparkVelocity :: "revision \<Rightarrow> spark \<Rightarrow> vec3" where
  "sparkVelocity v r =
     (let speed = sparkSpeed v (fst r);
          theta = js_mul (js_mul (Fin (fst (snd r))) js_pi) (Fin 2);
          phi = js_mul (Fin (snd (snd r))) js_pi
      in (js_mul (js_mul (js_sin phi) (js_cos theta)) speed,
          js_mul (js_mul (js_sin phi) (js_sin theta)) speed,
          js_mul (js_cos phi) speed))"

text \<open>The \<^verbatim>\<open>Points\<close> object \<^verbatim>\<open>createParticleExplosion\<close> builds.\<close>

definition newBurst :: "revision \<Rightarrow> (nat \<Rightarrow> spark) \<Rightarrow> vec3 \<Rightarrow> jsnum \<Rightarrow> jsnum \<Rightarrow> particles" where
  "newBurst v sparks pos magnitude depth =
     (let particleCount = js_floor (js_mul magnitude (Fin 100));
          n = loopRounds particleCount
      in \<lparr>positions = replicate n pos,
          velocities = map (\<lambda>i. sparkVelocity v (sparks i)) [0..<n],
          burstColor = getColorByDepth depth,
          pointSize = (case v of MapRev \<Rightarrow> Fin 0.2 | PlanetRev \<Rightarrow> Fin 0.15),
          life = Fin 1, pOpacity = Fin 1\<rparr>)"

definition createParticleExplosion ::
  "revision \<Rightarrow> (nat \<Rightarrow> spark) \<Rightarrow> vec3 \<Rightarrow> jsnum \<Rightarrow> jsnum \<Rightarrow> app \<Rightarrow> app" where
  "createParticleExplosion v sparks pos magnitude depth s =
     s\<lparr>particleSystems := particleSystems s @ [newBurst v sparks pos magnitude depth]\<rparr>"

text \<open>
  One round of the outer loop of \<^verbatim>\<open>updateParticles\<close> on one system, before the
  test of its life. Both arrays of a system have the same length.
\<close>

definition moveParticle :: "jsnum \<Rightarrow> vec3 \<Rightarrow> vec3 \<Rightarrow> vec3" where
  "moveParticle dt p w =
     (js_add (fst p) (js_mul (js_mul (fst w) dt) (Fin 60)),
      js_add (fst (snd p)) (js_mul (js_mul (fst (snd w)) dt) (Fin 60)),
      js_add (snd (snd p)) (js_mul (js_mul (snd (snd w)) dt) (Fin 60)))"

definition advance :: "jsnum \<Rightarrow> particles \<Rightarrow> particles" where
  "advance dt system =
     (let life' = js_sub (life system) (js_mul dt (Fin 0.5))
      in system\<lparr>positions := map2 (moveParticle dt) (positions system) (velocities system),
                life := life', pOpacity := life'\<rparr>)"

definition expired :: "particles \<Rightarrow> bool" where
  "expired system = js_le (life system) (Fin 0)"

text \<open>
  The outer loop, from the last index down to 0: \<open>updateParticlesLoop dt k\<close> still has
  the indices below \<open>k\<close> to visit.
\<close>

fun updateParticlesLoop :: "jsnum \<Rightarrow> nat \<Rightarrow> app \<Rightarrow> app" where
  "updateParticlesLoop dt 0 s = s"
| "updateParticlesLoop dt (Suc i) s =
     (let system = advance dt (particleSystems s ! i)
      in updateParticlesLoop dt i
           (if expired system
            then s\<lparr>particleSystems := take i (particleSystems s) @ drop (Suc i) (particleSystems s),
                   disposed := disposed s @ [system]\<rparr>
            else s\<lparr>particleSystems := (particleSystems s)[i := system]\<rparr>))"

definition updateParticles :: "jsnum \<Rightarrow> app \<Rightarrow> app" where
  "updateParticles dt s = updateParticlesLoop dt (length (particleSystems s)) s"

definition animate :: "real \<Rightarrow> app \<Rightarrow> app" where
  "animate time s =
     (let deltaTime = js_div (js_sub (Fin time) (lastTime s)) (Fin 1000)
      in updateParticles deltaTime (s\<lparr>lastTime := Fin time\<rparr>))"

subsection \<open>Visualisation modes\<close>

text \<open>The body of the reset loop of \<^verbatim>\<open>setMode\<close> on one marker.\<close>

definition resetMarker :: "revision \<Rightarrow> marker \<Rightarrow> marker" where
  "resetMarker v m =
     (let m' = m\<lparr>scale := (Fin 1, Fin 1, Fin 1), position := originalPosition m,
                 opacity := Fin 0.9\<rparr>
      in case v of MapRev \<Rightarrow> m'\<lparr>depthLine := Some (Fin 0.3)\<rparr> | PlanetRev \<Rightarrow> m')"

text \<open>
  \<^verbatim>\<open>if (this.modeInterval) { clearInterval(this.modeInterval); this.modeInterval = null; }\<close>
  (inline in the map revision, \<^verbatim>\<open>clearModeInterval\<close> in the planet revision); the
  handle 0 is falsy.
\<close>

definition clearModeInterval :: "app \<Rightarrow> app" where
  "clearModeInterval s =
     (case modeInterval s of
        None \<Rightarrow> s
      | Some h \<Rightarrow> if h = 0 then s else (clearInterval h s)\<lparr>modeInterval := None\<rparr>)"

definition dimMarker :: "revision \<Rightarrow> marker \<Rightarrow> marker" where
  "dimMarker v m =
     (case v of
        MapRev \<Rightarrow> m\<lparr>opacity := Fin 0.1, depthLine := Some (Fin 0.05)\<rparr>
      | PlanetRev \<Rightarrow> m\<lparr>opacity := Fin 0.1\<rparr>)"

definition revealMarker :: "revision \<Rightarrow> marker \<Rightarrow> marker" where
  "revealMarker v m =
     (case v of
        MapRev \<Rightarrow> m\<lparr>opacity := Fin 0.9, depthLine := Some (Fin 0.5)\<rparr>
      | PlanetRev \<Rightarrow> m\<lparr>opacity := Fin 0.9\<rparr>)"

definition startHistoryMode :: "revision \<Rightarrow> app \<Rightarrow> app" where
  "startHistoryMode v s =
     (let s1 = s\<lparr>earthquakeMarkers := map (dimMarker v) (earthquakeMarkers s),
                 historyIndex := 0\<rparr>;
          period = (case v of MapRev \<Rightarrow> Fin 120 | PlanetRev \<Rightarrow> Fin 150)
      in (register (Interval period HistoryTick) s1)\<lparr>modeInterval := Some (nextTimer s1)\<rparr>)"

text \<open>
  The callback of the interval. The planet revision also starts a camera move towards
  the marker, which touches the camera only.
\<close>

definition historyTick :: "revision \<Rightarrow> (nat \<Rightarrow> spark) \<Rightarrow> app \<Rightarrow> app" where
  "historyTick v sparks s =
     (if historyIndex s < length (earthquakeMarkers s)
      then (let i = historyIndex s;
                s1 = updateMarker i (revealMarker v) s;
                m = earthquakeMarkers s1 ! i;
                s2 = createParticleExplosion v sparks (originalPosition m)
                       (magnitud (quake m)) (profundidad (quake m)) s1
            in s2\<lparr>historyIndex := Suc i\<rparr>)
      else s\<lparr>historyIndex := 0,
             earthquakeMarkers := map (dimMarker v) (earthquakeMarkers s)\<rparr>)"

text \<open>The closure \<^verbatim>\<open>pulse\<close>, resumed at the clock reading \<open>now\<close>.\<close>

definition pulse :: "revision \<Rightarrow> nat \<Rightarrow> jsnum \<Rightarrow> jsnum \<Rightarrow> jsnum \<Rightarrow> app \<Rightarrow> app" where
  "pulse v i startTime duration now s =
     (if currentMode s \<noteq> ''chaos'' then s
      else (let elapsed = js_sub now startTime;
                progress = js_div (js_mod elapsed duration) duration;
                wave = js_sin (js_mul progress js_pi);
                s1 = (case v of
                        MapRev \<Rightarrow>
                          (let sc = js_add (Fin 1) (js_mul wave (Fin 0.7))
                           in updateMarker i
                                (\<lambda>m. m\<lparr>scale := (sc, sc, sc),
                                        depthLine := Some (js_add (Fin 0.3) (js_mul wave (Fin 0.3)))\<rparr>) s)
                      | PlanetRev \<Rightarrow>
                          (let sc = js_add (Fin 1) (js_mul wave (Fin 0.5))
                           in updateMarker i (\<lambda>m. m\<lparr>scale := (sc, sc, sc)\<rparr>) s))
            in register (AnimationFrame (Pulse i startTime duration)) s1))"

text \<open>
  What one round of the loop of \<^verbatim>\<open>startChaosMode\<close> reads from the clock and from
  \<^verbatim>\<open>Math.random()\<close>, in the order of the source.
\<close>

record chaos_env =
  ce_startTime :: real
  ce_durationRoll :: real
  ce_pulseTime :: real
  ce_burstRoll :: real
  ce_delayRoll :: real

definition chaosMarker :: "revision \<Rightarrow> chaos_env \<Rightarrow> nat \<Rightarrow> app \<Rightarrow> app" where
  "chaosMarker v e i s =
     (let startTime = Fin (ce_startTime e);
          duration = js_add (Fin 500) (js_mul (Fin (ce_durationRoll e)) (Fin 500));
          s1 = pulse v i startTime duration (Fin (ce_pulseTime e)) s
      in if js_gt (Fin (ce_burstRoll e)) (Fin 0.95)
         then register (Timeout (js_mul (Fin (ce_delayRoll e)) (Fin 3000)) (ChaosBurst i)) s1
         else s1)"

definition startChaosMode :: "revision \<Rightarrow> (nat \<Rightarrow> chaos_env) \<Rightarrow> app \<Rightarrow> app" where
  "startChaosMode v env s =
     fold (\<lambda>i s'. chaosMarker v (env i) i s') [0..<length (earthquakeMarkers s)] s"

definition rainMarker :: "revision \<Rightarrow> nat \<Rightarrow> app \<Rightarrow> app" where
  "rainMarker v i s =
     (case v of
        MapRev \<Rightarrow>
          (let startY = js_add (Fin 80) (js_mul (Fin (real i)) (Fin 0.5));
               s1 = updateMarker i (\<lambda>m. m\<lparr>position := set_y startY (position m)\<rparr>) s;
               m = earthquakeMarkers s1 ! i;
               fallDuration =
                 js_add (Fin 1500) (js_mul (js_div (magnitud (quake m)) (Fin 3.4)) (Fin 1500))
           in register (Timeout (js_mul (Fin (real i)) (Fin 30)) (RainTimeout i startY fallDuration)) s1)
      | PlanetRev \<Rightarrow>
          (let startY = js_add (Fin 20) (js_mul (Fin (real i)) (Fin 0.3));
               s1 = updateMarker i (\<lambda>m. m\<lparr>position := set_y startY (position m)\<rparr>) s;
               m = earthquakeMarkers s1 ! i;
               fallDuration =
                 js_add (Fin 2000) (js_mul (js_div (magnitud (quake m)) (Fin 3.4)) (Fin 2000))
           in register (Timeout (js_mul (Fin (real i)) (Fin 50)) (FallTimeout i fallDuration)) s1))"

definition startRainMode :: "revision \<Rightarrow> app \<Rightarrow> app" where
  "startRainMode v s = fold (rainMarker v) [0..<length (earthquakeMarkers s)] s"

text \<open>
  The height the closure \<^verbatim>\<open>fall\<close> writes:
  \<^verbatim>\<open>startY + (targetY - startY) * eased\<close> with \<^verbatim>\<open>eased = progress * progress\<close>.
\<close>

definition fallProgress :: "jsnum \<Rightarrow> jsnum \<Rightarrow> jsnum \<Rightarrow> jsnum" where
  "fallProgress duration startTime now =
     js_min (js_div (js_sub now startTime) duration) (Fin 1)"

definition fallHeight :: "jsnum \<Rightarrow> jsnum \<Rightarrow> jsnum \<Rightarrow> jsnum" where
  "fallHeight startY targetY progress =
     js_add startY (js_mul (js_sub targetY startY) (js_mul progress progress))"

definition snapToRest :: "marker \<Rightarrow> marker" where
  "snapToRest m = m\<lparr>position := originalPosition m\<rparr>"

text \<open>The closure \<^verbatim>\<open>fall\<close>, resumed at the clock reading \<open>now\<close>.\<close>

definition fall ::
  "revision \<Rightarrow> (nat \<Rightarrow> spark) \<Rightarrow> nat \<Rightarrow> jsnum \<Rightarrow> jsnum \<Rightarrow> jsnum \<Rightarrow> jsnum \<Rightarrow> jsnum \<Rightarrow> app \<Rightarrow> app" where
  "fall v sparks i startY targetY duration startTime now s =
     (if currentMode s \<noteq> ''rain'' then updateMarker i snapToRest s
      else (let progress = fallProgress duration startTime now;
                s1 = updateMarker i
                       (\<lambda>m. m\<lparr>position := set_y (fallHeight startY targetY progress) (position m)\<rparr>) s
            in if js_ge progress (Fin 1)
               then (let m = earthquakeMarkers s1 ! i;
                         s2 = createParticleExplosion v sparks (originalPosition m)
                                (magnitud (quake m)) (profundidad (quake m)) s1
                     in updateMarker i snapToRest s2)
               else register (AnimationFrame (Fall i startY targetY duration startTime)) s1))"

definition enterMode :: "revision \<Rightarrow> (nat \<Rightarrow> chaos_env) \<Rightarrow> string \<Rightarrow> app \<Rightarrow> app" where
  "enterMode v env mode s =
     (if mode = ''history'' then startHistoryMode v s
      else if mode = ''chaos'' then startChaosMode v env s
      else if mode = ''rain'' then startRainMode v s
      else s)"

definition resetMarkers :: "revision \<Rightarrow> app \<Rightarrow> app" where
  "resetMarkers v s = s\<lparr>earthquakeMarkers := map (resetMarker v) (earthquakeMarkers s)\<rparr>"

definition setMode :: "revision \<Rightarrow> (nat \<Rightarrow> chaos_env) \<Rightarrow> string \<Rightarrow> app \<Rightarrow> app" where
  "setMode v env mode s =
     enterMode v env mode (resetMarkers v ((clearModeInterval s)\<lparr>currentMode := mode\<rparr>))"

subsection \<open>Pointer events\<close>

definition onMouseMove :: "revision \<Rightarrow> nat option \<Rightarrow> app \<Rightarrow> app" where
  "onMouseMove v hit s =
     (let s1 = (case hoveredMarker s of
                  None \<Rightarrow> s
                | Some h \<Rightarrow>
                    (updateMarker h
                       (\<lambda>m. case v of
                               MapRev \<Rightarrow> m\<lparr>scale := (Fin 1, Fin 1, Fin 1),
                                            depthLine := Some (Fin 0.3)\<rparr>
                             | PlanetRev \<Rightarrow> m\<lparr>scale := (Fin 1, Fin 1, Fin 1)\<rparr>) s)
                    \<lparr>hoveredMarker := None\<rparr>)
      in case hit of
           None \<Rightarrow> s1
         | Some i \<Rightarrow>
             updateMarker i
               (\<lambda>m. case v of
                       MapRev \<Rightarrow> m\<lparr>scale := (Fin 2, Fin 2, Fin 2), depthLine := Some (Fin 0.8)\<rparr>
                     | PlanetRev \<Rightarrow> m\<lparr>scale := (Fin 1.8, Fin 1.8, Fin 1.8)\<rparr>)
               (s1\<lparr>hoveredMarker := Some i\<rparr>))"

text \<open>
  \<^verbatim>\<open>onClick\<close> also shows the data confetti and, at ten clicks, the achievement
  banner; \<^verbatim>\<open>onDoubleClick\<close> also moves the camera. Both touch the DOM or the
  camera only.
\<close>

definition onClick :: "app \<Rightarrow> app" where
  "onClick s =
     (case hoveredMarker s of
        None \<Rightarrow> s
      | Some h \<Rightarrow>
          (let c = Suc (clickCount s)
           in if 10 \<le> c then s\<lparr>clickCount := 0\<rparr> else s\<lparr>clickCount := c\<rparr>))"

definition onDoubleClick :: "revision \<Rightarrow> app \<Rightarrow> app" where
  "onDoubleClick v s =
     (case hoveredMarker s of
        None \<Rightarrow> s
      | Some h \<Rightarrow>
          register (Timeout (case v of MapRev \<Rightarrow> Fin 1000 | PlanetRev \<Rightarrow> Fin 1500) DblClickBurst) s)"

subsection \<open>The event loop\<close>

text \<open>
  What a callback reads when it runs: two clock readings (the second is the one
  \<^verbatim>\<open>fall\<close> takes right after a timeout callback took the first) and the random
  draws of a burst.
\<close>

record fire_env =
  fe_now :: real
  fe_now2 :: real
  fe_sparks :: "nat \<Rightarrow> spark"

definition burstAt :: "revision \<Rightarrow> (nat \<Rightarrow> spark) \<Rightarrow> marker \<Rightarrow> jsnum \<Rightarrow> app \<Rightarrow> app" where
  "burstAt v sparks m factor s =
     createParticleExplosion v sparks (originalPosition m)
       (js_mul (magnitud (quake m)) factor) (profundidad (quake m)) s"

text \<open>
  Running one callback. The double-click timeout reads \<^verbatim>\<open>this.hoveredMarker\<close> when
  it fires and throws a \<^verbatim>\<open>TypeError\<close> when that is \<^verbatim>\<open>null\<close>.
\<close>

fun runTask :: "revision \<Rightarrow> fire_env \<Rightarrow> task \<Rightarrow> app \<Rightarrow> js_error + app" where
  "runTask v e HistoryTick s = Inr (historyTick v (fe_sparks e) s)"
| "runTask v e (Pulse i startTime duration) s =
     Inr (pulse v i startTime duration (Fin (fe_now e)) s)"
| "runTask v e (ChaosBurst i) s =
     Inr (burstAt v (fe_sparks e) (earthquakeMarkers s ! i) (Fin 0.5) s)"
| "runTask v e (RainTimeout i startY fallDuration) s =
     (let startTime = Fin (fe_now e);
          targetY = vec_y (originalPosition (earthquakeMarkers s ! i))
      in Inr (fall v (fe_sparks e) i startY targetY fallDuration startTime (Fin (fe_now2 e)) s))"
| "runTask v e (FallTimeout i duration) s =
     (let startTime = Fin (fe_now e);
          startY = vec_y (position (earthquakeMarkers s ! i));
          targetY = vec_y (originalPosition (earthquakeMarkers s ! i))
      in Inr (fall v (fe_sparks e) i startY targetY duration startTime (Fin (fe_now2 e)) s))"
| "runTask v e (Fall i startY targetY duration startTime) s =
     Inr (fall v (fe_sparks e) i startY targetY duration startTime (Fin (fe_now e)) s)"
| "runTask v e DblClickBurst s =
     (case hoveredMarker s of
        None \<Rightarrow> Inl TypeError
      | Some h \<Rightarrow> Inr (burstAt v (fe_sparks e) (earthquakeMarkers s ! h) (Fin 2) s))"

text \<open>
  The browser runs the callback registered under handle \<open>h\<close>: a timeout or an animation
  frame is used up, an interval stays. An error thrown by the callback is reported by
  the browser and the page goes on with the state the callback left.
\<close>

definition fire :: "revision \<Rightarrow> fire_env \<Rightarrow> nat \<Rightarrow> app \<Rightarrow> app" where
  "fire v e h s =
     (case map_of (timers s) h of
        None \<Rightarrow> s
      | Some t \<Rightarrow>
          (let s1 = (if is_interval t then s else clearInterval h s)
           in case runTask v e (timer_task t) s1 of Inl err \<Rightarrow> s1 | Inr s2 \<Rightarrow> s2))"

text \<open>
  What can happen once the scene is built: a call of \<open>setMode\<close> (a mode button; a key
  from 1 to 4 calls it twice in a row), the browser running a pending callback, a frame
  (\<^verbatim>\<open>animate\<close>, which asks for the next frame itself and is always pending), a
  pointer move with what the ray caster hit first, a click, a double click. The model
  keeps no due times: a pending callback may run at any step, and the delay the source
  asked for is kept in the entry. The ray caster of \<^verbatim>\<open>onMouseMove\<close> is given the
  marker array, so a hit is a marker of the array.
\<close>

datatype event =
    SetMode string "nat \<Rightarrow> chaos_env"
  | Fire nat fire_env
  | Animate real
  | MouseMove "nat option"
  | Click
  | DblClick

fun step :: "revision \<Rightarrow> event \<Rightarrow> app \<Rightarrow> app" where
  "step v (SetMode mode env) s = setMode v env mode s"
| "step v (Fire h e) s = fire v e h s"
| "step v (Animate time) s = animate time s"
| "step v (MouseMove hit) s =
     onMouseMove v
       (case hit of None \<Rightarrow> None
        | Some i \<Rightarrow> if i < length (earthquakeMarkers s) then Some i else None) s"
| "step v Click s = onClick s"
| "step v DblClick s = onDoubleClick v s"

definition run :: "revision \<Rightarrow> event list \<Rightarrow> app \<Rightarrow> app" where
  "run v es s = fold (step v) es s"

text \<open>\<^verbatim>\<open>init\<close>: load the records, then build the markers.\<close>

definition init :: "revision \<Rightarrow> (string \<Rightarrow> jsnum) \<Rightarrow> fetched \<Rightarrow> js_error + app" where
  "init v pf f =
     (case loadEarthquakeData pf f constructor of
        Inl e \<Rightarrow> Inl e
      | Inr s \<Rightarrow> Inr (createEarthquakeMarkers v s))"

text \<open>
  What of a marker no handler writes: all but scale, position, opacity and, in the map
  revision, the opacity of the depth line.
\<close>

definition static ::
  "revision \<Rightarrow> marker \<Rightarrow> earthquake \<times> nat \<times> jsnum \<times> vec3 \<times> nat \<times> jsnum \<times> jsnum option" where
  "static v m =
     (quake m, originalColor m, originalScale m, originalPosition m, color m, radius m,
      (case v of MapRev \<Rightarrow> None | PlanetRev \<Rightarrow> depthLine m))"

text \<open>What no event may change: the fixed part of every marker, and the records.\<close>

definition fixedPart ::
  "revision \<Rightarrow> app \<Rightarrow>
   (earthquake \<times> nat \<times> jsnum \<times> vec3 \<times> nat \<times> jsnum \<times> jsnum option) list \<times> earthquake list" where
  "fixedPart v s = (map (static v) (earthquakeMarkers s), earthquakes s)"

text \<open>
  Two markers that differ at most in scale, position and opacity (and the opacity of the
  depth line in the map revision).
\<close>

definition restyled :: "revision \<Rightarrow> marker \<Rightarrow> marker \<Rightarrow> bool" where
  "restyled v m m' = (static v m' = static v m)"

text \<open>Two application states with the same markers and the same mode.\<close>

definition alike :: "app \<Rightarrow> app \<Rightarrow> bool" where
  "alike a b = (earthquakeMarkers a = earthquakeMarkers b \<and> currentMode a = currentMode b)"

text \<open>The burst a callback fires for a marker, and a run of ticks of the interval.\<close>

definition burstFor :: "revision \<Rightarrow> (nat \<Rightarrow> spark) \<Rightarrow> marker \<Rightarrow> particles" where
  "burstFor v sparks m =
     newBurst v sparks (originalPosition m) (magnitud (quake m)) (profundidad (quake m))"

definition ticks :: "revision \<Rightarrow> (nat \<Rightarrow> spark) list \<Rightarrow> app \<Rightarrow> app" where
  "ticks v sps s = fold (historyTick v) sps s"

text \<open>
  The timer table of a running page: handles are positive, below the next handle and
  pairwise different, and an entry is an interval exactly when \<open>modeInterval\<close> holds
  its handle.
\<close>

definition wf_timers :: "app \<Rightarrow> bool" where
  "wf_timers s =
     (0 < nextTimer s \<and>
      distinct (map fst (timers s)) \<and>
      list_all (\<lambda>e. 0 < fst e \<and> fst e < nextTimer s \<and>
                     is_interval (snd e) = (modeInterval s = Some (fst e))) (timers s) \<and>
      (case modeInterval s of None \<Rightarrow> True | Some h \<Rightarrow> 0 < h \<and> h < nextTimer s))"

text \<open>A handle that is not pending and that no later registration can return.\<close>

definition retired :: "nat \<Rightarrow> app \<Rightarrow> bool" where
  "retired h s = (h < nextTimer s \<and> list_all (\<lambda>x. fst x \<noteq> h) (timers s))"



fun leavesHistory :: "app \<Rightarrow> event \<Rightarrow> bool" where
  "leavesHistory s (SetMode mode env) = False"
| "leavesHistory s (Fire h e) =
     (case map_of (timers s) h of None \<Rightarrow> True | Some t \<Rightarrow> timer_task t \<noteq> HistoryTick)"
| "leavesHistory s _ = True"

subsection \<open>Example inputs\<close>

text \<open>A stand-in for the browser's \<^verbatim>\<open>parseFloat\<close> on the strings of the examples.\<close>

definition pf0 :: "string \<Rightarrow> jsnum" where
  "pf0 str =
     (if str = ''4.7'' then Fin 4.7 else if str = ''-75.9'' then Fin (- 75.9)
      else if str = ''10'' then Fin 10 else if str = ''2'' then Fin 2 else NaN)"

definition quakeNaN :: earthquake where
  "quakeNaN =
     \<lparr>quake_id = Some ''a'', fecha = Some ''b'', hora = Some ''c'',
      latitud = Fin 4.7, longitud = NaN, profundidad = NaN, magnitud = Fin 2,
      departamento = None, municipio = None\<rparr>"

definition origin :: vec3 where
  "origin = (Fin 0, Fin 0, Fin 0)"

definition sparks0 :: "nat \<Rightarrow> spark" where
  "sparks0 i = (0, 0, 0)"

definition csv1 :: string where
  "csv1 = ''h;h'' @ CHR 0x0A # ''a;b;c;4.7;-75.9;10;2''"

definition quake1 :: earthquake where
  "quake1 =
     \<lparr>quake_id = Some ''a'', fecha = Some ''b'', hora = Some ''c'',
      latitud = Fin 4.7, longitud = Fin (- 75.9), profundidad = Fin 10, magnitud = Fin 2,
      departamento = None, municipio = None\<rparr>"

definition scene1 :: app where
  "scene1 = constructor\<lparr>earthquakes := [quake1], earthquakeMarkers := [newMarker MapRev quake1]\<rparr>"

definition scene1' :: app where
  "scene1' =
     scene1\<lparr>earthquakeMarkers :=
       [(newMarker MapRev quake1)\<lparr>scale := (Fin 2, Fin 2, Fin 2), position := origin,
                                    opacity := Fin 0.1\<rparr>]\<rparr>"

definition env0 :: "nat \<Rightarrow> chaos_env" where
  "env0 i = \<lparr>ce_startTime = 0, ce_durationRoll = 0, ce_pulseTime = 0,
            ce_burstRoll = 0.96, ce_delayRoll = 0.5\<rparr>"

definition fenv0 :: fire_env where
  "fenv0 = \<lparr>fe_now = 0, fe_now2 = 0, fe_sparks = sparks0\<rparr>"



definition fenv2 :: fire_env where
  "fenv2 = \<lparr>fe_now = 1500, fe_now2 = 1500, fe_sparks = sparks0\<rparr>"

definition chaos1 :: app where
  "chaos1 = setMode MapRev env0 ''chaos'' scene1"

definition hist1 :: app where
  "hist1 = setMode MapRev env0 ''history'' scene1"

section \<open>Properties\<close>

subsection \<open>Depth bands and marker sizes\<close>

text \<open>
  C5. For a depth that is a non-negative number, \<open>getColorByDepth\<close> gives the shallow
  colour below 20, the middle colour from 20 (included) to 60 (excluded) and the deep
  colour from 60 (included) on.
\<close>

theorem getColorByDepth_bands:
  "0 \<le> d \<Longrightarrow>
   (d < 20 \<longrightarrow> getColorByDepth (Fin d) = 0xff4444) \<and>
   (20 \<le> d \<and> d < 60 \<longrightarrow> getColorByDepth (Fin d) = 0xffaa00) \<and>
   (60 \<le> d \<longrightarrow> getColorByDepth (Fin d) = 0x4444ff)"
  by (simp add: getColorByDepth_def)

theorem getColorByDepth_bands_witness:
  "getColorByDepth (Fin 10) = 0xff4444 \<and> getColorByDepth (Fin 20) = 0xffaa00 \<and>
   getColorByDepth (Fin 40) = 0xffaa00 \<and> getColorByDepth (Fin 60) = 0x4444ff"
  using getColorByDepth_bands [of 10] getColorByDepth_bands [of 20]
    getColorByDepth_bands [of 40] getColorByDepth_bands [of 60]
  by simp

text \<open>
  C7. The size of a marker is a linear interpolation in the magnitude, from the floor
  size at magnitude 0 to the ceiling size at magnitude 3.4, so a larger magnitude never
  gives a smaller marker; it is the radius \<open>createEarthquakeMarkers\<close> gives the mesh.
\<close>

theorem markerSize_mono:
  "(m1 \<le> m2 \<longrightarrow> js_le (markerSize v (Fin m1)) (markerSize v (Fin m2))) \<and>
   markerSize MapRev (Fin m) = Fin (0.3 + (1.1 - 0.3) * (m / 3.4)) \<and>
   markerSize PlanetRev (Fin m) = Fin (0.08 + (0.33 - 0.08) * (m / 3.4)) \<and>
   radius (newMarker v q) = markerSize v (magnitud q) \<and>
   originalScale (newMarker v q) = markerSize v (magnitud q)"
  by (cases v) (simp_all add: markerSize_def newMarker_def Let_def)

theorem markerSize_mono_witness:
  "js_le (markerSize MapRev (Fin 1)) (markerSize MapRev (Fin 2)) \<and>
   markerSize MapRev (Fin 0) = Fin 0.3 \<and> markerSize MapRev (Fin 3.4) = Fin 1.1 \<and>
   markerSize PlanetRev (Fin 0) = Fin 0.08 \<and> markerSize PlanetRev (Fin 3.4) = Fin 0.33"
  using markerSize_mono [of 1 2 MapRev 0] markerSize_mono [of 1 2 MapRev "3.4"]
  by simp

text \<open>
  C10. \<open>getColorByDepth\<close> gives one of the three colours on every number; where neither
  comparison holds, as for \<open>NaN\<close>, it gives the deep colour, and so does the marker built
  from a record whose depth is \<open>NaN\<close>.
\<close>

theorem getColorByDepth_total:
  "getColorByDepth NaN = 0x4444ff \<and>
   (getColorByDepth d = 0xff4444 \<or> getColorByDepth d = 0xffaa00 \<or>
    getColorByDepth d = 0x4444ff) \<and>
   (\<not> js_lt d (Fin 20) \<and> \<not> js_lt d (Fin 60) \<longrightarrow> getColorByDepth d = 0x4444ff) \<and>
   (profundidad q = NaN \<longrightarrow>
      color (newMarker v q) = 0x4444ff \<and> originalColor (newMarker v q) = 0x4444ff)"
  by (simp add: getColorByDepth_def newMarker_def Let_def)

theorem getColorByDepth_total_witness:
  "\<not> js_lt NaN (Fin 20) \<and> \<not> js_lt NaN (Fin 60) \<and> profundidad quakeNaN = NaN \<and>
   getColorByDepth NaN = 0x4444ff \<and> color (newMarker MapRev quakeNaN) = 0x4444ff \<and>
   color (newMarker PlanetRev quakeNaN) = 0x4444ff"
  using getColorByDepth_total [of NaN quakeNaN MapRev]
    getColorByDepth_total [of NaN quakeNaN PlanetRev]
  by (simp add: quakeNaN_def)

subsection \<open>Data loader\<close>




subsection \<open>Particle bursts\<close>















subsection \<open>Markers are never removed or restyled\<close>

lemma fixedPart_updateMarker:
  "(\<And>m. static v (f m) = static v m) \<Longrightarrow> fixedPart v (updateMarker i f s) = fixedPart v s"
proof (cases "i < length (earthquakeMarkers s)")
  case True
  assume "\<And>m. static v (f m) = static v m"
  with True show ?thesis
    by (simp add: fixedPart_def updateMarker_def map_update list_update_same_conv)
next
  case False
  then show ?thesis by (simp add: fixedPart_def updateMarker_def list_update_beyond)
qed

lemma fixedPart_map:
  "(\<And>m. static v (f m) = static v m) \<Longrightarrow>
   fixedPart v (s\<lparr>earthquakeMarkers := map f (earthquakeMarkers s)\<rparr>) = fixedPart v s"
  by (simp add: fixedPart_def)

lemma fixedPart_fold:
  "(\<And>x s. fixedPart v (g x s) = fixedPart v s) \<Longrightarrow> fixedPart v (fold g xs s) = fixedPart v s"
  by (induction xs arbitrary: s) simp_all

lemma static_marker_ops [simp]:
  "static v (resetMarker v m) = static v m"
  "static v (dimMarker v m) = static v m"
  "static v (revealMarker v m) = static v m"
  "static v (snapToRest m) = static v m"
  "static v (m\<lparr>position := p\<rparr>) = static v m"
  "static v (m\<lparr>scale := sc\<rparr>) = static v m"
  "static v (m\<lparr>opacity := op\<rparr>) = static v m"
  "static MapRev (m\<lparr>depthLine := dl\<rparr>) = static MapRev m"
  by (cases v; simp add: static_def resetMarker_def dimMarker_def revealMarker_def
      snapToRest_def Let_def)+

lemma fixedPart_basic [simp]:
  "fixedPart v (register t s) = fixedPart v s"
  "fixedPart v (clearInterval h s) = fixedPart v s"
  "fixedPart v (createParticleExplosion v' sparks pos mg dp s) = fixedPart v s"
  "fixedPart v (s\<lparr>historyIndex := k\<rparr>) = fixedPart v s"
  "fixedPart v (s\<lparr>modeInterval := mi\<rparr>) = fixedPart v s"
  "fixedPart v (s\<lparr>currentMode := md\<rparr>) = fixedPart v s"
  "fixedPart v (s\<lparr>hoveredMarker := hm\<rparr>) = fixedPart v s"
  "fixedPart v (s\<lparr>clickCount := c\<rparr>) = fixedPart v s"
  "fixedPart v (s\<lparr>lastTime := lt\<rparr>) = fixedPart v s"
  "fixedPart v (s\<lparr>particleSystems := ps\<rparr>) = fixedPart v s"
  "fixedPart v (s\<lparr>disposed := ds\<rparr>) = fixedPart v s"
  "fixedPart v (s\<lparr>timers := ts\<rparr>) = fixedPart v s"
  by (simp_all add: fixedPart_def register_def clearInterval_def createParticleExplosion_def)

lemma fixedPart_clearModeInterval [simp]: "fixedPart v (clearModeInterval s) = fixedPart v s"
  by (simp add: clearModeInterval_def split: option.splits)

lemma fixedPart_resetMarkers [simp]: "fixedPart v (resetMarkers v s) = fixedPart v s"
  by (simp add: resetMarkers_def fixedPart_map)

lemma fixedPart_startHistoryMode [simp]: "fixedPart v (startHistoryMode v s) = fixedPart v s"
  by (simp add: startHistoryMode_def Let_def fixedPart_map)

lemma fixedPart_historyTick [simp]: "fixedPart v (historyTick v sparks s) = fixedPart v s"
proof (cases "historyIndex s < length (earthquakeMarkers s)")
  case True
  then show ?thesis by (simp add: historyTick_def Let_def fixedPart_updateMarker)
next
  case False
  then show ?thesis by (simp add: historyTick_def fixedPart_def)
qed

lemma fixedPart_pulse [simp]: "fixedPart v (pulse v i st d now s) = fixedPart v s"
  by (cases v) (simp_all add: pulse_def Let_def fixedPart_updateMarker)

lemma fixedPart_chaosMarker [simp]: "fixedPart v (chaosMarker v e i s) = fixedPart v s"
  by (simp add: chaosMarker_def Let_def)

lemma fixedPart_startChaosMode [simp]: "fixedPart v (startChaosMode v env s) = fixedPart v s"
  by (simp add: startChaosMode_def fixedPart_fold)

lemma fixedPart_rainMarker [simp]: "fixedPart v (rainMarker v i s) = fixedPart v s"
  by (cases v) (simp_all add: rainMarker_def Let_def fixedPart_updateMarker)

lemma fixedPart_startRainMode [simp]: "fixedPart v (startRainMode v s) = fixedPart v s"
  by (simp add: startRainMode_def fixedPart_fold)

lemma fixedPart_fall [simp]: "fixedPart v (fall v sparks i sy ty d st now s) = fixedPart v s"
  by (simp add: fall_def Let_def fixedPart_updateMarker)

lemma fixedPart_setMode [simp]: "fixedPart v (setMode v env mode s) = fixedPart v s"
  by (simp add: setMode_def enterMode_def)

lemma fixedPart_runTask: "runTask v e t s = Inr s' \<Longrightarrow> fixedPart v s' = fixedPart v s"
  by (cases t) (auto simp: Let_def burstAt_def split: option.splits)

lemma fixedPart_fire [simp]: "fixedPart v (fire v e h s) = fixedPart v s"
  by (auto simp: fire_def Let_def split: option.splits sum.splits dest!: fixedPart_runTask)

lemma fixedPart_updateParticlesLoop [simp]:
  "fixedPart v (updateParticlesLoop dt k s) = fixedPart v s"
  by (induction k arbitrary: s) (simp_all add: Let_def)

lemma fixedPart_animate [simp]: "fixedPart v (animate t s) = fixedPart v s"
  by (simp add: animate_def updateParticles_def Let_def)

lemma fixedPart_onMouseMove [simp]: "fixedPart v (onMouseMove v hit s) = fixedPart v s"
  by (cases v) (simp_all add: onMouseMove_def Let_def fixedPart_updateMarker split: option.splits)

lemma fixedPart_onClick [simp]: "fixedPart v (onClick s) = fixedPart v s"
  by (simp add: onClick_def Let_def split: option.splits)

lemma fixedPart_onDoubleClick [simp]: "fixedPart v (onDoubleClick v s) = fixedPart v s"
  by (simp add: onDoubleClick_def split: option.splits)

lemma fixedPart_step: "fixedPart v (step v ev s) = fixedPart v s"
  by (cases ev) simp_all

lemma fixedPart_run: "fixedPart v (run v es s) = fixedPart v s"
  by (simp add: run_def fixedPart_fold fixedPart_step)

lemma createEarthquakeMarkers_eq:
  "createEarthquakeMarkers v s =
     s\<lparr>earthquakeMarkers := earthquakeMarkers s @ map (newMarker v) (earthquakes s)\<rparr>"
proof -
  have "fold (\<lambda>q s'. s'\<lparr>earthquakeMarkers := earthquakeMarkers s' @ [newMarker v q]\<rparr>) qs s =
          s\<lparr>earthquakeMarkers := earthquakeMarkers s @ map (newMarker v) qs\<rparr>" for qs
    by (induction qs arbitrary: s) simp_all
  then show ?thesis by (simp add: createEarthquakeMarkers_def)
qed

lemma init_markers:
  "init v pf f = Inr s0 \<Longrightarrow> earthquakeMarkers s0 = map (newMarker v) (earthquakes s0)"
  by (auto simp: init_def loadEarthquakeData_def createEarthquakeMarkers_eq constructor_def
      split: sum.splits)

text \<open>
  C9. Building the scene gives one marker per loaded record, in order. Whatever events
  follow (mode switches, callbacks of timers and animation frames, frames, pointer moves,
  clicks, double clicks), the marker array keeps its length and the records stay as
  loaded; each marker keeps its record, and its colour, radius and resting position stay
  what \<open>getColorByDepth\<close>, the size expression and the projection give for that record.
\<close>

theorem markers_fixed:
  assumes "init v pf f = Inr s0"
  shows "length (earthquakeMarkers (run v es s0)) = length (earthquakes s0) \<and>
         earthquakes (run v es s0) = earthquakes s0 \<and>
         map quake (earthquakeMarkers (run v es s0)) = earthquakes s0 \<and>
         (\<forall>i<length (earthquakes s0).
            color (earthquakeMarkers (run v es s0) ! i) =
              getColorByDepth (profundidad (earthquakes s0 ! i)) \<and>
            radius (earthquakeMarkers (run v es s0) ! i) =
              markerSize v (magnitud (earthquakes s0 ! i)) \<and>
            originalPosition (earthquakeMarkers (run v es s0) ! i) =
              markerPosition v (earthquakes s0 ! i))"
proof -
  let ?s = "run v es s0"
  have fp: "fixedPart v ?s = fixedPart v s0" by (rule fixedPart_run)
  have m0: "earthquakeMarkers s0 = map (newMarker v) (earthquakes s0)"
    using assms by (rule init_markers)
  from fp have st: "map (static v) (earthquakeMarkers ?s) = map (static v) (earthquakeMarkers s0)"
    and eq: "earthquakes ?s = earthquakes s0"
    by (simp_all add: fixedPart_def)
  from st have len: "length (earthquakeMarkers ?s) = length (earthquakes s0)"
    using m0 by (metis length_map)
  have pt: "static v (earthquakeMarkers ?s ! i) = static v (newMarker v (earthquakes s0 ! i))"
    if "i < length (earthquakes s0)" for i
  proof -
    from that len
    have "static v (earthquakeMarkers ?s ! i) = map (static v) (earthquakeMarkers ?s) ! i"
      by simp
    also have "\<dots> = map (static v) (map (newMarker v) (earthquakes s0)) ! i"
      by (simp only: st m0)
    also have "\<dots> = static v (newMarker v (earthquakes s0 ! i))"
      using that by simp
    finally show ?thesis .
  qed
  have q: "map quake (earthquakeMarkers ?s) = earthquakes s0"
  proof -
    have "map quake (earthquakeMarkers ?s) = map (fst \<circ> static v) (earthquakeMarkers ?s)"
      by (simp add: static_def comp_def)
    also have "\<dots> = map fst (map (static v) (earthquakeMarkers s0))"
      by (simp only: st [symmetric] map_map)
    also have "\<dots> = earthquakes s0"
      by (simp add: m0 static_def newMarker_def Let_def comp_def)
    finally show ?thesis .
  qed
  have "color (earthquakeMarkers ?s ! i) = getColorByDepth (profundidad (earthquakes s0 ! i)) \<and>
        radius (earthquakeMarkers ?s ! i) = markerSize v (magnitud (earthquakes s0 ! i)) \<and>
        originalPosition (earthquakeMarkers ?s ! i) = markerPosition v (earthquakes s0 ! i)"
    if "i < length (earthquakes s0)" for i
    using pt [OF that] by (simp add: static_def newMarker_def Let_def)
  with len eq q show ?thesis by blast
qed

theorem markers_fixed_witness:
  "init MapRev pf0 (Body csv1) = Inr scene1 \<and>
   length (earthquakeMarkers
     (run MapRev [SetMode ''rain'' env0, MouseMove (Some 0), Click, Animate 5] scene1)) = 1 \<and>
   color (earthquakeMarkers
     (run MapRev [SetMode ''rain'' env0, MouseMove (Some 0), Click, Animate 5] scene1) ! 0) =
     0xff4444"
proof -
  have h: "init MapRev pf0 (Body csv1) = Inr scene1"
    by (simp add: init_def loadEarthquakeData_def tryLoad_def csv1_def parseLine_def trim_def
        isWhiteSpace_def part_def parseFloat_def pf0_def createEarthquakeMarkers_def scene1_def
        quake1_def constructor_def)
  have q: "earthquakes scene1 = [quake1]" "profundidad quake1 = Fin 10"
    by (simp_all add: scene1_def quake1_def)
  from markers_fixed [OF h, of "[SetMode ''rain'' env0, MouseMove (Some 0), Click, Animate 5]"] h q
  show ?thesis by (simp add: getColorByDepth_def)
qed

subsection \<open>Entering a mode\<close>

lemma alike_fold:
  "(\<And>x a b. alike a b \<Longrightarrow> alike (g x a) (g x b)) \<Longrightarrow> alike a b \<Longrightarrow>
   alike (fold g xs a) (fold g xs b)"
  by (induction xs arbitrary: a b) simp_all

lemma alike_register: "alike a b \<Longrightarrow> alike (register t a) (register t' b)"
  by (simp add: alike_def register_def)

lemma alike_updateMarker: "alike a b \<Longrightarrow> alike (updateMarker i f a) (updateMarker i f b)"
  by (simp add: alike_def updateMarker_def)

lemma alike_pulse: "alike a b \<Longrightarrow> alike (pulse v i st d now a) (pulse v i st d now b)"
  by (cases v) (auto simp: pulse_def Let_def intro!: alike_register alike_updateMarker
      simp: alike_def [of a b])

lemma alike_chaosMarker: "alike a b \<Longrightarrow> alike (chaosMarker v e i a) (chaosMarker v e i b)"
  by (auto simp: chaosMarker_def Let_def intro!: alike_register alike_pulse)

lemma alike_rainMarker: "alike a b \<Longrightarrow> alike (rainMarker v i a) (rainMarker v i b)"
proof -
  assume ab: "alike a b"
  then have "earthquakeMarkers (updateMarker i f a) = earthquakeMarkers (updateMarker i f b)" for f
    using alike_updateMarker [OF ab] by (simp add: alike_def)
  with ab show ?thesis
    by (cases v) (auto simp: rainMarker_def Let_def intro!: alike_register alike_updateMarker)
qed

lemma alike_enterMode:
  assumes "alike a b"
  shows "alike (enterMode v env mode a) (enterMode v env mode b)"
proof -
  from assms have len: "length (earthquakeMarkers a) = length (earthquakeMarkers b)"
    by (simp add: alike_def)
  have h: "alike (startHistoryMode v a) (startHistoryMode v b)"
    using assms by (simp add: startHistoryMode_def Let_def alike_def register_def)
  have c: "alike (startChaosMode v env a) (startChaosMode v env b)"
    unfolding startChaosMode_def len
    by (rule alike_fold) (simp_all add: alike_chaosMarker assms)
  have r: "alike (startRainMode v a) (startRainMode v b)"
    unfolding startRainMode_def len
    by (rule alike_fold) (simp_all add: alike_rainMarker assms)
  from h c r assms show ?thesis by (simp add: enterMode_def)
qed

lemma resetMarker_restyled: "restyled v m m' \<Longrightarrow> resetMarker v m' = resetMarker v m"
  by (cases m; cases m'; cases v) (simp_all add: restyled_def static_def resetMarker_def)

lemma resetMarker_values:
  "scale (resetMarker v m) = (Fin 1, Fin 1, Fin 1) \<and>
   position (resetMarker v m) = originalPosition m \<and>
   opacity (resetMarker v m) = Fin 0.9 \<and>
   originalPosition (resetMarker v m) = originalPosition m"
  by (cases v) (simp_all add: resetMarker_def Let_def)

lemma markers_clearModeInterval [simp]:
  "earthquakeMarkers (clearModeInterval s) = earthquakeMarkers s"
  by (simp add: clearModeInterval_def clearInterval_def split: option.splits)

lemma setMode_restyled:
  assumes "list_all2 (restyled v) (earthquakeMarkers s1) (earthquakeMarkers s2)"
  shows "earthquakeMarkers (setMode v env mode s1) = earthquakeMarkers (setMode v env mode s2)"
proof -
  from assms
  have "map (resetMarker v) (earthquakeMarkers s2) = map (resetMarker v) (earthquakeMarkers s1)"
    by (induction rule: list_all2_induct) (simp_all add: resetMarker_restyled)
  then have "alike (resetMarkers v ((clearModeInterval s1)\<lparr>currentMode := mode\<rparr>))
                   (resetMarkers v ((clearModeInterval s2)\<lparr>currentMode := mode\<rparr>))"
    by (simp add: alike_def resetMarkers_def)
  from alike_enterMode [OF this] show ?thesis
    by (simp add: setMode_def alike_def)
qed

lemma restyled_run: "list_all2 (restyled v) (earthquakeMarkers s) (earthquakeMarkers (run v es s))"
proof -
  have "fixedPart v (run v es s) = fixedPart v s" by (rule fixedPart_run)
  then have "map (static v) (earthquakeMarkers (run v es s)) = map (static v) (earthquakeMarkers s)"
    by (simp add: fixedPart_def)
  then show ?thesis
    by (simp add: list_all2_conv_all_nth restyled_def list_eq_iff_nth_eq)
qed

text \<open>
  C2. \<open>setMode\<close> first clears the interval and stores the mode, then resets every marker,
  and only then starts the behaviour of the mode. The reset gives each marker scale
  (1, 1, 1), its cached resting position and opacity 0.9, and doing it twice is doing it
  once. So the markers a mode entry leaves do not depend on the scale, position and
  opacity the markers had before: two states whose markers differ only there, and in
  particular a state and any state the event loop reaches from it, give the same markers.
\<close>

theorem setMode_resets_first:
  "setMode v env mode s =
     enterMode v env mode (resetMarkers v ((clearModeInterval s)\<lparr>currentMode := mode\<rparr>)) \<and>
   earthquakeMarkers (resetMarkers v ((clearModeInterval s)\<lparr>currentMode := mode\<rparr>)) =
     map (resetMarker v) (earthquakeMarkers s) \<and>
   scale (resetMarker v m) = (Fin 1, Fin 1, Fin 1) \<and>
   position (resetMarker v m) = originalPosition m \<and>
   opacity (resetMarker v m) = Fin 0.9 \<and>
   originalPosition (resetMarker v m) = originalPosition m \<and>
   resetMarker v (resetMarker v m) = resetMarker v m \<and>
   resetMarker v (m\<lparr>scale := sc, position := p, opacity := op\<rparr>) = resetMarker v m \<and>
   (list_all2 (restyled v) (earthquakeMarkers s) (earthquakeMarkers s') \<longrightarrow>
      earthquakeMarkers (setMode v env mode s') = earthquakeMarkers (setMode v env mode s)) \<and>
   earthquakeMarkers (setMode v env mode (run v es s)) = earthquakeMarkers (setMode v env mode s)"
proof -
  have i: "resetMarker v (resetMarker v m) = resetMarker v m"
    by (cases v) (simp_all add: resetMarker_def Let_def)
  have j: "resetMarker v (m\<lparr>scale := sc, position := p, opacity := op\<rparr>) = resetMarker v m"
    by (cases v) (simp_all add: resetMarker_def Let_def)
  have k: "earthquakeMarkers (setMode v env mode (run v es s)) =
           earthquakeMarkers (setMode v env mode s)"
  proof -
    have "list_all2 (restyled v) (earthquakeMarkers s) (earthquakeMarkers (run v es s))"
      by (rule restyled_run)
    then show ?thesis by (rule setMode_restyled [symmetric])
  qed
  show ?thesis
    using resetMarker_values [of v m]
      setMode_restyled [where v = v and ?s1.0 = s and ?s2.0 = s' and env = env and mode = mode] i j k
    by (simp add: setMode_def resetMarkers_def)
qed

theorem setMode_resets_first_witness:
  "list_all2 (restyled MapRev) (earthquakeMarkers scene1) (earthquakeMarkers scene1') \<and>
   earthquakeMarkers (setMode MapRev env0 ''history'' scene1') =
     earthquakeMarkers (setMode MapRev env0 ''history'' scene1) \<and>
   earthquakeMarkers (setMode MapRev env0 ''explorer'' scene1') = [newMarker MapRev quake1]"
proof -
  have h: "list_all2 (restyled MapRev) (earthquakeMarkers scene1) (earthquakeMarkers scene1')"
    by (simp add: scene1_def scene1'_def restyled_def static_def)
  have e: "earthquakeMarkers (setMode MapRev env0 ''explorer'' scene1) = [newMarker MapRev quake1]"
    by (simp add: setMode_def enterMode_def resetMarkers_def scene1_def constructor_def
        clearModeInterval_def resetMarker_def newMarker_def Let_def)
  from h e setMode_resets_first [where v = MapRev and env = env0 and mode = "''history''"
      and s = scene1 and s' = scene1' and es = "[]"]
    setMode_resets_first [where v = MapRev and env = env0 and mode = "''explorer''"
      and s = scene1 and s' = scene1' and es = "[]"]
  show ?thesis by simp
qed

subsection \<open>What an event leaves alone\<close>

lemma field_updateMarker:
  "(\<And>m. g (f m) = g m) \<Longrightarrow>
   map g (earthquakeMarkers (updateMarker i f s)) = map g (earthquakeMarkers s)"
proof (cases "i < length (earthquakeMarkers s)")
  case True
  assume "\<And>m. g (f m) = g m"
  with True show ?thesis
    by (simp add: updateMarker_def map_update list_update_same_conv)
next
  case False
  then show ?thesis by (simp add: updateMarker_def list_update_beyond)
qed

lemma markers_basic [simp]:
  "earthquakeMarkers (register t s) = earthquakeMarkers s"
  "earthquakeMarkers (clearInterval h s) = earthquakeMarkers s"
  "earthquakeMarkers (createParticleExplosion v sparks pos mg dp s) = earthquakeMarkers s"
  "earthquakeMarkers (burstAt v sparks m fc s) = earthquakeMarkers s"
  "earthquakeMarkers (onClick s) = earthquakeMarkers s"
  "earthquakeMarkers (onDoubleClick v s) = earthquakeMarkers s"
  by (simp_all add: register_def clearInterval_def createParticleExplosion_def burstAt_def
      onClick_def onDoubleClick_def Let_def split: option.splits)

lemma markers_updateParticlesLoop [simp]:
  "earthquakeMarkers (updateParticlesLoop dt k s) = earthquakeMarkers s"
  by (induction k arbitrary: s) (simp_all add: Let_def)

lemma markers_animate [simp]: "earthquakeMarkers (animate t s) = earthquakeMarkers s"
  by (simp add: animate_def updateParticles_def Let_def)

lemma index_basic [simp]:
  "historyIndex (register t s) = historyIndex s"
  "historyIndex (clearInterval h s) = historyIndex s"
  "historyIndex (updateMarker i f s) = historyIndex s"
  "historyIndex (createParticleExplosion v sparks pos mg dp s) = historyIndex s"
  "historyIndex (burstAt v sparks m fc s) = historyIndex s"
  "historyIndex (onClick s) = historyIndex s"
  "historyIndex (onDoubleClick v s) = historyIndex s"
  by (simp_all add: register_def clearInterval_def createParticleExplosion_def burstAt_def
      onClick_def onDoubleClick_def updateMarker_def Let_def split: option.splits)

lemma index_updateParticlesLoop [simp]:
  "historyIndex (updateParticlesLoop dt k s) = historyIndex s"
  by (induction k arbitrary: s) (simp_all add: Let_def)

lemma index_animate [simp]: "historyIndex (animate t s) = historyIndex s"
  by (simp add: animate_def updateParticles_def Let_def)

lemma index_onMouseMove [simp]: "historyIndex (onMouseMove v hit s) = historyIndex s"
  by (simp add: onMouseMove_def Let_def split: option.splits)

lemma index_pulse [simp]: "historyIndex (pulse v i st d now s) = historyIndex s"
  by (cases v) (simp_all add: pulse_def Let_def)

lemma index_fall [simp]: "historyIndex (fall v sparks i sy ty d st now s) = historyIndex s"
  by (simp add: fall_def Let_def)

lemma field_pulse:
  assumes "\<And>m x. g (m\<lparr>scale := x\<rparr>) = g m" "\<And>m x. g (m\<lparr>depthLine := x\<rparr>) = g m"
  shows "map g (earthquakeMarkers (pulse v i st d now s)) = map g (earthquakeMarkers s)"
  by (cases v) (simp_all add: pulse_def Let_def field_updateMarker assms)

lemma field_onMouseMove:
  assumes "\<And>m x. g (m\<lparr>scale := x\<rparr>) = g m" "\<And>m x. g (m\<lparr>depthLine := x\<rparr>) = g m"
  shows "map g (earthquakeMarkers (onMouseMove v hit s)) = map g (earthquakeMarkers s)"
  by (cases v) (simp_all add: onMouseMove_def Let_def field_updateMarker assms split: option.splits)


lemma opacities_fall:
  "map opacity (earthquakeMarkers (fall v sparks i sy ty d st now s)) =
   map opacity (earthquakeMarkers s)"
  by (simp add: fall_def Let_def field_updateMarker snapToRest_def)


lemma history_step:
  assumes "leavesHistory s ev"
  shows "historyIndex (step v ev s) = historyIndex s \<and>
         map opacity (earthquakeMarkers (step v ev s)) = map opacity (earthquakeMarkers s)"
proof (cases ev)
  case (SetMode mode env)
  with assms show ?thesis by simp
next
  case (Fire h e)
  show ?thesis
  proof (cases "map_of (timers s) h")
    case None
    with Fire show ?thesis by (simp add: fire_def)
  next
    case (Some t)
    with assms Fire have nf: "timer_task t \<noteq> HistoryTick" by simp
    let ?s1 = "if is_interval t then s else clearInterval h s"
    have m1: "earthquakeMarkers ?s1 = earthquakeMarkers s" "historyIndex ?s1 = historyIndex s"
      by simp_all
    have "historyIndex s2 = historyIndex ?s1 \<and>
          map opacity (earthquakeMarkers s2) = map opacity (earthquakeMarkers ?s1)"
      if "runTask v e (timer_task t) ?s1 = Inr s2" for s2
      using that nf
      by (cases "timer_task t")
        (auto simp: opacities_fall field_pulse Let_def split: option.splits
          simp del: markers_basic(2) index_basic(2))
    then show ?thesis
      using Fire Some m1 by (auto simp: fire_def Let_def split: sum.splits)
  qed
next
  case (Animate t)
  then show ?thesis by simp
next
  case (MouseMove hit)
  then show ?thesis by (simp add: field_onMouseMove)
next
  case Click
  then show ?thesis by simp
next
  case DblClick
  then show ?thesis by simp
qed

subsection \<open>The timer table\<close>

lemma wf_timers_cong:
  "timers s' = timers s \<Longrightarrow> nextTimer s' = nextTimer s \<Longrightarrow> modeInterval s' = modeInterval s \<Longrightarrow>
   wf_timers s' = wf_timers s"
  by (simp add: wf_timers_def cong: option.case_cong)

lemma wf_timers_fold:
  "(\<And>x s. wf_timers s \<Longrightarrow> wf_timers (g x s)) \<Longrightarrow> wf_timers s \<Longrightarrow> wf_timers (fold g xs s)"
  by (induction xs arbitrary: s) simp_all

lemma wf_timers_register:
  "wf_timers s \<Longrightarrow> \<not> is_interval t \<Longrightarrow> wf_timers (register t s)"
  by (auto simp: wf_timers_def register_def list_all_iff split: option.splits)

lemma wf_timers_clearInterval: "wf_timers s \<Longrightarrow> wf_timers (clearInterval h s)"
  by (auto simp: wf_timers_def clearInterval_def list_all_iff distinct_map_filter
      split: option.splits)

lemma wf_timers_updateMarker [simp]: "wf_timers (updateMarker i f s) = wf_timers s"
  by (rule wf_timers_cong) (simp_all add: updateMarker_def)

lemma wf_timers_createParticleExplosion [simp]:
  "wf_timers (createParticleExplosion v sparks pos mg dp s) = wf_timers s"
  by (rule wf_timers_cong) (simp_all add: createParticleExplosion_def)

lemma wf_timers_fields [simp]:
  "wf_timers (s\<lparr>earthquakeMarkers := ms\<rparr>) = wf_timers s"
  "wf_timers (s\<lparr>historyIndex := k\<rparr>) = wf_timers s"
  "wf_timers (s\<lparr>currentMode := md\<rparr>) = wf_timers s"
  "wf_timers (s\<lparr>hoveredMarker := hm\<rparr>) = wf_timers s"
  "wf_timers (s\<lparr>clickCount := c\<rparr>) = wf_timers s"
  "wf_timers (s\<lparr>lastTime := lt\<rparr>) = wf_timers s"
  "wf_timers (s\<lparr>particleSystems := ps\<rparr>) = wf_timers s"
  "wf_timers (s\<lparr>disposed := ds\<rparr>) = wf_timers s"
  by (rule wf_timers_cong; simp)+

lemma wf_timers_clearModeInterval:
  "wf_timers s \<Longrightarrow>
   wf_timers (clearModeInterval s) \<and> modeInterval (clearModeInterval s) = None \<and>
   list_all (\<lambda>e. \<not> is_interval (snd e)) (timers (clearModeInterval s))"
  by (auto simp: wf_timers_def clearModeInterval_def clearInterval_def list_all_iff
      distinct_map_filter split: option.splits)

lemma wf_timers_startHistoryMode:
  "wf_timers s \<Longrightarrow> modeInterval s = None \<Longrightarrow> wf_timers (startHistoryMode v s)"
  by (auto simp: wf_timers_def startHistoryMode_def register_def Let_def list_all_iff)

lemma wf_timers_historyTick [simp]: "wf_timers (historyTick v sparks s) = wf_timers s"
  by (rule wf_timers_cong)
    (simp_all add: historyTick_def Let_def updateMarker_def createParticleExplosion_def)

lemma wf_timers_pulse: "wf_timers s \<Longrightarrow> wf_timers (pulse v i st d now s)"
  by (cases v) (simp_all add: pulse_def Let_def wf_timers_register)

lemma wf_timers_chaosMarker: "wf_timers s \<Longrightarrow> wf_timers (chaosMarker v e i s)"
  by (simp add: chaosMarker_def Let_def wf_timers_register wf_timers_pulse)

lemma wf_timers_rainMarker: "wf_timers s \<Longrightarrow> wf_timers (rainMarker v i s)"
  by (cases v) (simp_all add: rainMarker_def Let_def wf_timers_register)

lemma wf_timers_fall: "wf_timers s \<Longrightarrow> wf_timers (fall v sparks i sy ty d st now s)"
  by (simp add: fall_def Let_def wf_timers_register)

lemma modeInterval_fold:
  "(\<And>x s. modeInterval (g x s) = modeInterval s) \<Longrightarrow> modeInterval (fold g xs s) = modeInterval s"
  by (induction xs arbitrary: s) simp_all

lemma wf_timers_setMode: "wf_timers s \<Longrightarrow> wf_timers (setMode v env mode s)"
proof -
  assume "wf_timers s"
  then have c: "wf_timers (clearModeInterval s)" "modeInterval (clearModeInterval s) = None"
    using wf_timers_clearModeInterval by blast+
  let ?r = "resetMarkers v ((clearModeInterval s)\<lparr>currentMode := mode\<rparr>)"
  from c have r: "wf_timers ?r" "modeInterval ?r = None"
    by (simp_all add: resetMarkers_def)
  have "wf_timers (startChaosMode v env ?r)"
    unfolding startChaosMode_def using r(1) by (intro wf_timers_fold wf_timers_chaosMarker)
  moreover have "wf_timers (startRainMode v ?r)"
    unfolding startRainMode_def using r(1) by (intro wf_timers_fold wf_timers_rainMarker)
  moreover note wf_timers_startHistoryMode [OF r] r(1)
  ultimately show ?thesis by (auto simp: setMode_def enterMode_def)
qed

lemma wf_timers_runTask: "wf_timers s \<Longrightarrow> runTask v e t s = Inr s' \<Longrightarrow> wf_timers s'"
  by (cases t) (auto simp: Let_def burstAt_def wf_timers_pulse wf_timers_fall split: option.splits)

lemma wf_timers_fire: "wf_timers s \<Longrightarrow> wf_timers (fire v e h s)"
proof (cases "map_of (timers s) h")
  case None
  assume "wf_timers s"
  with None show ?thesis by (simp add: fire_def)
next
  case (Some t)
  assume wf: "wf_timers s"
  let ?s1 = "if is_interval t then s else clearInterval h s"
  from wf have wf1: "wf_timers ?s1" by (simp add: wf_timers_clearInterval)
  show ?thesis
  proof (cases "runTask v e (timer_task t) ?s1")
    case (Inl err)
    with Some wf1 show ?thesis by (simp add: fire_def Let_def)
  next
    case (Inr s2)
    from wf_timers_runTask [OF wf1 Inr] Some Inr show ?thesis by (simp add: fire_def Let_def)
  qed
qed

lemma wf_timers_updateParticlesLoop [simp]:
  "wf_timers (updateParticlesLoop dt k s) = wf_timers s"
  by (induction k arbitrary: s) (simp_all add: Let_def)

lemma wf_timers_step: "wf_timers s \<Longrightarrow> wf_timers (step v ev s)"
proof (cases ev)
  case (SetMode mode env)
  assume "wf_timers s"
  with SetMode show ?thesis by (simp add: wf_timers_setMode)
next
  case (Fire h e)
  assume "wf_timers s"
  with Fire show ?thesis by (simp add: wf_timers_fire)
next
  case (Animate t)
  assume "wf_timers s"
  with Animate show ?thesis by (simp add: animate_def updateParticles_def Let_def)
next
  case (MouseMove hit)
  assume "wf_timers s"
  with MouseMove show ?thesis
    by (cases v) (simp_all add: onMouseMove_def Let_def split: option.splits)
next
  case Click
  assume "wf_timers s"
  with Click show ?thesis by (simp add: onClick_def Let_def split: option.splits)
next
  case DblClick
  assume "wf_timers s"
  with DblClick show ?thesis
    by (cases v) (simp_all add: onDoubleClick_def wf_timers_register split: option.splits)
qed

lemma wf_timers_run: "wf_timers s \<Longrightarrow> wf_timers (run v es s)"
  unfolding run_def by (rule wf_timers_fold) (rule wf_timers_step)

lemma wf_timers_init: "init v pf f = Inr s0 \<Longrightarrow> wf_timers s0"
  by (auto simp: init_def loadEarthquakeData_def createEarthquakeMarkers_eq constructor_def
      wf_timers_def split: sum.splits)

subsection \<open>History mode\<close>

lemma revealed_split:
  assumes "k < length ms"
  shows "map f (take k ms) @ drop k ms = map f (take k ms) @ ms ! k # drop (Suc k) ms"
    and "map f (take (Suc k) ms) @ drop (Suc k) ms = map f (take k ms) @ f (ms ! k) # drop (Suc k) ms"
    and "length (map f (take k ms)) = k"
  using assms by (simp_all add: Cons_nth_drop_Suc take_Suc_conv_app_nth)

lemma reveal_next:
  assumes "k < length ms"
  shows "(map f (take k ms) @ drop k ms)[k := f ((map f (take k ms) @ drop k ms) ! k)] =
     map f (take (Suc k) ms) @ drop (Suc k) ms"
proof -
  let ?xs = "map f (take k ms)"
  note sp = revealed_split [OF assms, of f]
  have "(?xs @ ms ! k # drop (Suc k) ms) ! length ?xs = ms ! k"
    by (rule nth_append_length)
  moreover have "(?xs @ ms ! k # drop (Suc k) ms)[length ?xs := f (ms ! k)] =
      ?xs @ f (ms ! k) # drop (Suc k) ms"
    by (rule list_update_length)
  ultimately show ?thesis
    by (simp only: sp)
qed

lemma revealed_at:
  assumes "k < length ms"
  shows "(map f (take (Suc k) ms) @ drop (Suc k) ms) ! k = f (ms ! k)"
proof -
  let ?xs = "map f (take k ms)"
  note sp = revealed_split [OF assms, of f]
  have "(?xs @ f (ms ! k) # drop (Suc k) ms) ! length ?xs = f (ms ! k)"
    by (rule nth_append_length)
  then show ?thesis by (simp only: sp)
qed

lemma revealMarker_keeps [simp]:
  "originalPosition (revealMarker v m) = originalPosition m"
  "quake (revealMarker v m) = quake m"
  by (cases v; simp add: revealMarker_def)+

lemma zip_snoc:
  "length xs < length ys \<Longrightarrow> zip (xs @ [x]) ys = zip xs ys @ [(x, ys ! length xs)]"
proof (induction xs arbitrary: ys)
  case Nil
  then show ?case by (cases ys) simp_all
next
  case (Cons a xs)
  then show ?case by (cases ys) simp_all
qed

lemma ticks_progress:
  "historyIndex s = 0 \<Longrightarrow> length sps \<le> length (earthquakeMarkers s) \<Longrightarrow>
   ticks v sps s =
     s\<lparr>earthquakeMarkers :=
         map (revealMarker v) (take (length sps) (earthquakeMarkers s))
           @ drop (length sps) (earthquakeMarkers s),
       particleSystems := particleSystems s @ map2 (burstFor v) sps (earthquakeMarkers s),
       historyIndex := length sps\<rparr>"
proof (induction sps rule: rev_induct)
  case Nil
  then show ?case by (simp add: ticks_def)
next
  case (snoc sp sps)
  let ?ms = "earthquakeMarkers s"
  let ?k = "length sps"
  from snoc.prems have k: "?k < length ?ms" by simp
  let ?t = "s\<lparr>earthquakeMarkers := map (revealMarker v) (take ?k ?ms) @ drop ?k ?ms,
               particleSystems := particleSystems s @ map2 (burstFor v) sps ?ms,
               historyIndex := ?k\<rparr>"
  from snoc have t: "ticks v sps s = ?t" by simp
  have "ticks v (sps @ [sp]) s = historyTick v sp ?t"
    by (simp add: ticks_def t [unfolded ticks_def])
  also have "\<dots> =
     s\<lparr>earthquakeMarkers := map (revealMarker v) (take (Suc ?k) ?ms) @ drop (Suc ?k) ?ms,
       particleSystems := particleSystems s @ map2 (burstFor v) (sps @ [sp]) ?ms,
       historyIndex := Suc ?k\<rparr>"
    using k
    by (simp add: historyTick_def Let_def updateMarker_def createParticleExplosion_def
        reveal_next zip_snoc revealed_at burstFor_def)
  finally show ?case by simp
qed

lemma dim_revealed: "dimMarker v (revealMarker v m) = dimMarker v m"
  by (cases v) (simp_all add: dimMarker_def revealMarker_def)

lemma ticks_cycle:
  assumes "historyIndex s = 0" and "length sps = length (earthquakeMarkers s)"
  shows "ticks v (sps @ [sp]) s =
     s\<lparr>earthquakeMarkers := map (dimMarker v) (earthquakeMarkers s),
       particleSystems := particleSystems s @ map2 (burstFor v) sps (earthquakeMarkers s),
       historyIndex := 0\<rparr>"
proof -
  have "ticks v (sps @ [sp]) s = historyTick v sp (ticks v sps s)"
    by (simp add: ticks_def)
  also have "\<dots> = s\<lparr>earthquakeMarkers := map (dimMarker v) (earthquakeMarkers s),
       particleSystems := particleSystems s @ map2 (burstFor v) sps (earthquakeMarkers s),
       historyIndex := 0\<rparr>"
    using assms by (simp add: ticks_progress historyTick_def dim_revealed comp_def)
  finally show ?thesis .
qed

lemma fire_interval:
  "map_of (timers s) h = Some (Interval p HistoryTick) \<Longrightarrow>
   fire v e h s = historyTick v (fe_sparks e) s"
  by (simp add: fire_def)

lemma timers_historyTick: "timers (historyTick v sp s) = timers s"
  by (simp add: historyTick_def Let_def updateMarker_def createParticleExplosion_def)

lemma setMode_history:
  assumes "wf_timers s"
  shows "historyIndex (setMode v env ''history'' s) = 0 \<and>
     earthquakeMarkers (setMode v env ''history'' s) =
       map (\<lambda>m. dimMarker v (resetMarker v m)) (earthquakeMarkers s) \<and>
     modeInterval (setMode v env ''history'' s) = Some (nextTimer s) \<and>
     (\<exists>p. map_of (timers (setMode v env ''history'' s)) (nextTimer s) =
            Some (Interval p HistoryTick))"
proof -
  have n: "nextTimer (clearModeInterval s) = nextTimer s"
    by (simp add: clearModeInterval_def clearInterval_def split: option.splits)
  from assms have "wf_timers (clearModeInterval s)"
    using wf_timers_clearModeInterval by blast
  then have "nextTimer s \<notin> fst ` set (timers (clearModeInterval s))"
    unfolding n [symmetric] by (auto simp: wf_timers_def list_all_iff)
  then have "map_of (timers (clearModeInterval s)) (nextTimer s) = None"
    by (simp add: map_of_eq_None_iff)
  then show ?thesis
    by (simp add: setMode_def enterMode_def startHistoryMode_def resetMarkers_def register_def
        Let_def n comp_def map_add_def)
qed

text \<open>
  C3. A tick of the History interval at an index below the number of markers gives the
  marker at that index full opacity, appends one burst for it and moves the index on by
  one; no other marker changes. A tick at the end sets the index to 0 and dims every
  marker. So from index 0, the first \<open>k\<close> ticks reveal the first \<open>k\<close> markers in load
  order, one burst each, and the tick after the last marker leaves the index at 0 and all
  markers dimmed: the cycle starts again. Entering History mode puts the index at 0, dims
  the markers and registers the interval, which stays registered after a tick. With no
  marker, a tick returns normally and changes nothing. Between ticks, no event other
  than a mode switch changes the index or the opacity of a marker.
\<close>

theorem history_cycle:
  "(historyIndex s < length (earthquakeMarkers s) \<longrightarrow>
      earthquakeMarkers (historyTick v sp s) =
        (earthquakeMarkers s)[historyIndex s :=
           revealMarker v (earthquakeMarkers s ! historyIndex s)] \<and>
      particleSystems (historyTick v sp s) =
        particleSystems s @ [burstFor v sp (earthquakeMarkers s ! historyIndex s)] \<and>
      historyIndex (historyTick v sp s) = Suc (historyIndex s)) \<and>
   (length (earthquakeMarkers s) \<le> historyIndex s \<longrightarrow>
      historyTick v sp s =
        s\<lparr>historyIndex := 0, earthquakeMarkers := map (dimMarker v) (earthquakeMarkers s)\<rparr>) \<and>
   opacity (revealMarker v m) = Fin 0.9 \<and> opacity (dimMarker v m) = Fin 0.1 \<and>
   (historyIndex s = 0 \<and> length sps \<le> length (earthquakeMarkers s) \<longrightarrow>
      ticks v sps s =
        s\<lparr>earthquakeMarkers :=
            map (revealMarker v) (take (length sps) (earthquakeMarkers s))
              @ drop (length sps) (earthquakeMarkers s),
          particleSystems := particleSystems s @ map2 (burstFor v) sps (earthquakeMarkers s),
          historyIndex := length sps\<rparr>) \<and>
   (historyIndex s = 0 \<and> length sps = length (earthquakeMarkers s) \<longrightarrow>
      ticks v (sps @ [sp]) s =
        s\<lparr>earthquakeMarkers := map (dimMarker v) (earthquakeMarkers s),
          particleSystems := particleSystems s @ map2 (burstFor v) sps (earthquakeMarkers s),
          historyIndex := 0\<rparr>) \<and>
   (wf_timers s \<longrightarrow>
      historyIndex (setMode v env ''history'' s) = 0 \<and>
      earthquakeMarkers (setMode v env ''history'' s) =
        map (\<lambda>m. dimMarker v (resetMarker v m)) (earthquakeMarkers s) \<and>
      modeInterval (setMode v env ''history'' s) = Some (nextTimer s) \<and>
      fire v e (nextTimer s) (setMode v env ''history'' s) =
        historyTick v (fe_sparks e) (setMode v env ''history'' s) \<and>
      timers (historyTick v sp (setMode v env ''history'' s)) =
        timers (setMode v env ''history'' s)) \<and>
   (earthquakeMarkers s = [] \<longrightarrow>
      runTask v e HistoryTick (setMode v env ''history'' s) =
        Inr (setMode v env ''history'' s)) \<and>
   (leavesHistory s ev \<longrightarrow>
      historyIndex (step v ev s) = historyIndex s \<and>
      map opacity (earthquakeMarkers (step v ev s)) = map opacity (earthquakeMarkers s))"
proof -
  have a: "historyIndex s < length (earthquakeMarkers s) \<longrightarrow>
      earthquakeMarkers (historyTick v sp s) =
        (earthquakeMarkers s)[historyIndex s :=
           revealMarker v (earthquakeMarkers s ! historyIndex s)] \<and>
      particleSystems (historyTick v sp s) =
        particleSystems s @ [burstFor v sp (earthquakeMarkers s ! historyIndex s)] \<and>
      historyIndex (historyTick v sp s) = Suc (historyIndex s)"
    by (simp add: historyTick_def Let_def updateMarker_def createParticleExplosion_def
        burstFor_def)
  have b: "length (earthquakeMarkers s) \<le> historyIndex s \<longrightarrow>
      historyTick v sp s =
        s\<lparr>historyIndex := 0, earthquakeMarkers := map (dimMarker v) (earthquakeMarkers s)\<rparr>"
    by (simp add: historyTick_def)
  have c: "opacity (revealMarker v m) = Fin 0.9 \<and> opacity (dimMarker v m) = Fin 0.1"
    by (cases v) (simp_all add: revealMarker_def dimMarker_def)
  have d: "wf_timers s \<longrightarrow>
      historyIndex (setMode v env ''history'' s) = 0 \<and>
      earthquakeMarkers (setMode v env ''history'' s) =
        map (\<lambda>m. dimMarker v (resetMarker v m)) (earthquakeMarkers s) \<and>
      modeInterval (setMode v env ''history'' s) = Some (nextTimer s) \<and>
      fire v e (nextTimer s) (setMode v env ''history'' s) =
        historyTick v (fe_sparks e) (setMode v env ''history'' s)"
    using setMode_history [of s v env] fire_interval by blast
  have f: "earthquakeMarkers s = [] \<longrightarrow>
      runTask v e HistoryTick (setMode v env ''history'' s) =
        Inr (setMode v env ''history'' s)"
    by (simp add: setMode_def enterMode_def startHistoryMode_def resetMarkers_def register_def
        Let_def historyTick_def)
  from a b c d f show ?thesis
    using ticks_progress [of s sps v] ticks_cycle [of s sps v sp]
      timers_historyTick [of v sp "setMode v env ''history'' s"] history_step [of s ev v]
    by blast
qed

theorem history_cycle_witness:
  "wf_timers scene1 \<and>
   historyIndex (setMode MapRev env0 ''history'' scene1) = 0 \<and>
   map opacity (earthquakeMarkers (setMode MapRev env0 ''history'' scene1)) = [Fin 0.1] \<and>
   historyIndex (ticks MapRev [sparks0] (setMode MapRev env0 ''history'' scene1)) = 1 \<and>
   map opacity (earthquakeMarkers
     (ticks MapRev [sparks0] (setMode MapRev env0 ''history'' scene1))) = [Fin 0.9] \<and>
   length (particleSystems
     (ticks MapRev [sparks0] (setMode MapRev env0 ''history'' scene1))) = 1 \<and>
   historyIndex (ticks MapRev [sparks0, sparks0] (setMode MapRev env0 ''history'' scene1)) = 0 \<and>
   map opacity (earthquakeMarkers
     (ticks MapRev [sparks0, sparks0] (setMode MapRev env0 ''history'' scene1))) = [Fin 0.1] \<and>
   runTask MapRev fenv0 HistoryTick (setMode MapRev env0 ''history'' constructor) =
     Inr (setMode MapRev env0 ''history'' constructor) \<and>
   historyIndex (step MapRev (MouseMove (Some 0)) scene1) = historyIndex scene1"
proof -
  let ?s1 = "setMode MapRev env0 ''history'' scene1"
  have wf: "wf_timers scene1"
    by (simp add: wf_timers_def scene1_def constructor_def)
  have ms: "earthquakeMarkers scene1 = [newMarker MapRev quake1]"
    and ps: "particleSystems scene1 = []"
    by (simp_all add: scene1_def constructor_def)
  note enter = history_cycle [where s = scene1 and v = MapRev and env = env0 and sps = "[]"
      and e = fenv0 and sp = sparks0]
  from enter wf ms have i0: "historyIndex ?s1 = 0"
    and m1: "earthquakeMarkers ?s1 = [dimMarker MapRev (resetMarker MapRev (newMarker MapRev quake1))]"
    by simp_all
  have ps1: "particleSystems ?s1 = []"
    using ps by (simp add: setMode_def enterMode_def startHistoryMode_def resetMarkers_def
        register_def clearModeInterval_def clearInterval_def Let_def scene1_def constructor_def)
  note cyc = history_cycle [where s = ?s1 and v = MapRev and env = env0 and sps = "[sparks0]"
      and e = fenv0 and sp = sparks0 and m = "newMarker MapRev quake1"]
  from cyc i0 m1 have t1: "ticks MapRev [sparks0] ?s1 =
      ?s1\<lparr>earthquakeMarkers :=
            [revealMarker MapRev (dimMarker MapRev (resetMarker MapRev (newMarker MapRev quake1)))],
          particleSystems := particleSystems ?s1 @
            [burstFor MapRev sparks0 (dimMarker MapRev (resetMarker MapRev (newMarker MapRev quake1)))],
          historyIndex := 1\<rparr>"
    by simp
  from cyc i0 m1 have t2: "ticks MapRev [sparks0, sparks0] ?s1 =
      ?s1\<lparr>earthquakeMarkers :=
            [dimMarker MapRev (dimMarker MapRev (resetMarker MapRev (newMarker MapRev quake1)))],
          particleSystems := particleSystems ?s1 @
            [burstFor MapRev sparks0 (dimMarker MapRev (resetMarker MapRev (newMarker MapRev quake1)))],
          historyIndex := 0\<rparr>"
    by simp
  have e: "earthquakeMarkers constructor = []" by (simp add: constructor_def)
  note empty = history_cycle [where s = constructor and v = MapRev and env = env0 and e = fenv0]
  from empty e have r: "runTask MapRev fenv0 HistoryTick (setMode MapRev env0 ''history'' constructor) =
     Inr (setMode MapRev env0 ''history'' constructor)"
    by blast
  have "leavesHistory scene1 (MouseMove (Some 0))" by simp
  with history_cycle [where s = scene1 and v = MapRev and ev = "MouseMove (Some 0)"]
  have q: "historyIndex (step MapRev (MouseMove (Some 0)) scene1) = historyIndex scene1"
    by blast
  from wf i0 m1 ps1 r q show ?thesis
    by (simp add: t1 t2 dimMarker_def revealMarker_def)
qed

subsection \<open>Rain mode\<close>


lemma fallProgress_Fin:
  "0 < d \<Longrightarrow> fallProgress (Fin d) (Fin st) (Fin t) = Fin (min ((t - st) / d) 1)"
  by (simp add: fallProgress_def)

lemma fallHeight_Fin:
  "fallHeight (Fin sy) (Fin ty) (Fin p) = Fin (sy + (ty - sy) * (p * p))"
  by (simp add: fallHeight_def)



lemma fallHeight_end:
  "0 < d \<Longrightarrow> d \<le> t - st \<Longrightarrow>
   fallHeight (Fin sy) (Fin ty) (fallProgress (Fin d) (Fin st) (Fin t)) = Fin ty"
  by (simp add: fallProgress_Fin fallHeight_Fin min_def)












lemma set_y_simps [simp]:
  "vec_y (set_y y p) = y"
  "set_y a (set_y b p) = set_y a p"
  by (simp_all add: vec_y_def set_y_def)


lemma updateMarker_others [simp]:
  "particleSystems (updateMarker i f s) = particleSystems s"
  "timers (updateMarker i f s) = timers s"
  "nextTimer (updateMarker i f s) = nextTimer s"
  "currentMode (updateMarker i f s) = currentMode s"
  "length (earthquakeMarkers (updateMarker i f s)) = length (earthquakeMarkers s)"
  by (simp_all add: updateMarker_def)






subsection \<open>Tasks of the prior mode\<close>

lemma retired_fold:
  "(\<And>x s. retired h s \<Longrightarrow> retired h (g x s)) \<Longrightarrow> retired h s \<Longrightarrow> retired h (fold g xs s)"
  by (induction xs arbitrary: s) simp_all

lemma retired_register: "retired h s \<Longrightarrow> retired h (register t s)"
  by (simp add: retired_def register_def)

lemma retired_updateMarker [simp]: "retired h (updateMarker i f s) = retired h s"
  by (simp add: retired_def)

lemma retired_pulse: "retired h s \<Longrightarrow> retired h (pulse v i st d now s)"
  by (cases v) (simp_all add: pulse_def Let_def retired_register)

lemma retired_chaosMarker: "retired h s \<Longrightarrow> retired h (chaosMarker v e i s)"
  by (simp add: chaosMarker_def Let_def retired_register retired_pulse)

lemma retired_rainMarker: "retired h s \<Longrightarrow> retired h (rainMarker v i s)"
  by (cases v) (simp_all add: rainMarker_def Let_def retired_register)

lemma retired_enterMode: "retired h s \<Longrightarrow> retired h (enterMode v env mode s)"
proof -
  assume r: "retired h s"
  have "retired h (startHistoryMode v s)"
    using r by (simp add: startHistoryMode_def Let_def retired_def register_def)
  moreover have "retired h (startChaosMode v env s)"
    unfolding startChaosMode_def using r by (intro retired_fold retired_chaosMarker)
  moreover have "retired h (startRainMode v s)"
    unfolding startRainMode_def using r by (intro retired_fold retired_rainMarker)
  ultimately show ?thesis using r by (simp add: enterMode_def)
qed

lemma retired_setMode:
  assumes "wf_timers s" "modeInterval s = Some h"
  shows "retired h (setMode v env mode s)"
proof -
  from assms have "retired h (clearModeInterval s)"
    by (auto simp: wf_timers_def clearModeInterval_def clearInterval_def retired_def list_all_iff)
  then have "retired h (resetMarkers v ((clearModeInterval s)\<lparr>currentMode := mode\<rparr>))"
    by (simp add: retired_def resetMarkers_def)
  then show ?thesis unfolding setMode_def by (rule retired_enterMode)
qed

lemma fire_retired: "retired h s \<Longrightarrow> fire v e h s = s"
proof -
  assume "retired h s"
  then have "h \<notin> fst ` set (timers s)" by (auto simp: retired_def list_all_iff)
  then have "map_of (timers s) h = None" by (simp add: map_of_eq_None_iff)
  then show ?thesis by (simp add: fire_def)
qed

lemma modeInterval_chaosMarker: "modeInterval (chaosMarker v e i s) = modeInterval s"
  by (cases v)
    (simp_all add: chaosMarker_def pulse_def Let_def register_def updateMarker_def)

lemma modeInterval_rainMarker: "modeInterval (rainMarker v i s) = modeInterval s"
  by (cases v) (simp_all add: rainMarker_def Let_def register_def updateMarker_def)

lemma modeInterval_setMode:
  assumes "wf_timers s"
  shows "modeInterval (setMode v env mode s) =
           (if mode = ''history'' then Some (nextTimer s) else None)"
proof -
  let ?r = "resetMarkers v ((clearModeInterval s)\<lparr>currentMode := mode\<rparr>)"
  from assms have r: "modeInterval ?r = None"
    using wf_timers_clearModeInterval [of s] by (simp add: resetMarkers_def)
  have n: "nextTimer ?r = nextTimer s"
    by (simp add: resetMarkers_def clearModeInterval_def clearInterval_def split: option.splits)
  have "modeInterval (startChaosMode v env ?r) = None"
    unfolding startChaosMode_def using modeInterval_fold [of "\<lambda>i. chaosMarker v (env i) i"]
    by (simp add: modeInterval_chaosMarker r)
  moreover have "modeInterval (startRainMode v ?r) = None"
    unfolding startRainMode_def using modeInterval_fold [of "rainMarker v"]
    by (simp add: modeInterval_rainMarker r)
  moreover have "modeInterval (startHistoryMode v ?r) = Some (nextTimer s)"
    by (simp add: startHistoryMode_def Let_def register_def n)
  ultimately show ?thesis using r by (auto simp: setMode_def enterMode_def)
qed

lemma intervals_setMode:
  assumes "wf_timers s"
  shows "list_all (\<lambda>x. is_interval (snd x) \<longrightarrow> mode = ''history'' \<and> fst x = nextTimer s)
           (timers (setMode v env mode s))"
proof -
  from assms have "wf_timers (setMode v env mode s)" by (rule wf_timers_setMode)
  then have "list_all (\<lambda>x. is_interval (snd x) \<longrightarrow>
      modeInterval (setMode v env mode s) = Some (fst x)) (timers (setMode v env mode s))"
    by (simp add: wf_timers_def list_all_iff)
  then show ?thesis
    unfolding modeInterval_setMode [OF assms] by (auto simp: list_all_iff split: if_splits)
qed

lemma pending_fold:
  "(\<And>x s. set (timers s) \<subseteq> set (timers (g x s))) \<Longrightarrow>
   set (timers s) \<subseteq> set (timers (fold g xs s))"
proof (induction xs arbitrary: s)
  case Nil
  then show ?case by simp
next
  case (Cons x xs)
  have "set (timers s) \<subseteq> set (timers (g x s))" by (rule Cons.prems)
  also have "\<dots> \<subseteq> set (timers (fold g xs (g x s)))"
    by (rule Cons.IH) (rule Cons.prems)
  finally show ?case by simp
qed

lemma pending_chaosMarker: "set (timers s) \<subseteq> set (timers (chaosMarker v e i s))"
  by (cases v) (auto simp: chaosMarker_def pulse_def Let_def register_def updateMarker_def)

lemma pending_rainMarker: "set (timers s) \<subseteq> set (timers (rainMarker v i s))"
  by (cases v) (auto simp: rainMarker_def Let_def register_def updateMarker_def)

lemma pending_enterMode: "set (timers s) \<subseteq> set (timers (enterMode v env mode s))"
proof -
  have "set (timers s) \<subseteq> set (timers (startHistoryMode v s))"
    by (auto simp: startHistoryMode_def Let_def register_def)
  moreover have "set (timers s) \<subseteq> set (timers (startChaosMode v env s))"
    unfolding startChaosMode_def by (rule pending_fold) (rule pending_chaosMarker)
  moreover have "set (timers s) \<subseteq> set (timers (startRainMode v s))"
    unfolding startRainMode_def by (rule pending_fold) (rule pending_rainMarker)
  ultimately show ?thesis by (simp add: enterMode_def)
qed

lemma pending_setMode:
  assumes "wf_timers s" "x \<in> set (timers s)" "\<not> is_interval (snd x)"
  shows "x \<in> set (timers (setMode v env mode s))"
proof -
  from assms have "x \<in> set (timers (clearModeInterval s))"
    by (auto simp: wf_timers_def clearModeInterval_def clearInterval_def list_all_iff
        split: option.splits)
  then have "x \<in> set (timers (resetMarkers v ((clearModeInterval s)\<lparr>currentMode := mode\<rparr>)))"
    by (simp add: resetMarkers_def)
  with pending_enterMode show ?thesis unfolding setMode_def by blast
qed

lemma stale_pulse:
  "currentMode s \<noteq> ''chaos'' \<Longrightarrow> runTask v e (Pulse i st d) s = Inr s"
  by (simp add: pulse_def)

lemma stale_fall:
  "currentMode s \<noteq> ''rain'' \<Longrightarrow>
   runTask v e (Fall i sy ty d st) s = Inr (updateMarker i snapToRest s) \<and>
   runTask v e (RainTimeout i sy d) s = Inr (updateMarker i snapToRest s) \<and>
   runTask v e (FallTimeout i d) s = Inr (updateMarker i snapToRest s)"
  by (simp add: fall_def Let_def)

text \<open>
  C1, as the code has it. \<open>setMode\<close> cancels the History interval: the handle the prior
  mode held can no longer fire, and the only interval pending afterwards is the one a new
  History mode registers. No timeout and no animation frame is cancelled; instead a
  \<open>pulse\<close> callback that resumes while the mode is not chaos returns at once, with no
  effect and no new frame, and a \<open>fall\<close> callback or a rain timeout that resumes while
  the mode is not rain only copies the resting position into the position of its marker,
  with no burst and no new frame.
\<close>

theorem stale_tasks:
  "(wf_timers s \<and> modeInterval s = Some h \<longrightarrow>
      fire v e h (setMode v env mode s) = setMode v env mode s) \<and>
   (wf_timers s \<longrightarrow>
      list_all (\<lambda>x. is_interval (snd x) \<longrightarrow> mode = ''history'' \<and> fst x = nextTimer s)
        (timers (setMode v env mode s))) \<and>
   (wf_timers s \<and> x \<in> set (timers s) \<and> \<not> is_interval (snd x) \<longrightarrow>
      x \<in> set (timers (setMode v env mode s))) \<and>
   (currentMode s \<noteq> ''chaos'' \<longrightarrow> runTask v e (Pulse i st d) s = Inr s) \<and>
   (currentMode s \<noteq> ''rain'' \<longrightarrow>
      runTask v e (Fall i sy ty d st) s = Inr (updateMarker i snapToRest s) \<and>
      runTask v e (RainTimeout i sy d) s = Inr (updateMarker i snapToRest s) \<and>
      runTask v e (FallTimeout i d) s = Inr (updateMarker i snapToRest s)) \<and>
   updateMarker i snapToRest s =
     s\<lparr>earthquakeMarkers :=
         (earthquakeMarkers s)[i := (earthquakeMarkers s ! i)
            \<lparr>position := originalPosition (earthquakeMarkers s ! i)\<rparr>]\<rparr>"
proof -
  have a: "wf_timers s \<and> modeInterval s = Some h \<longrightarrow>
      fire v e h (setMode v env mode s) = setMode v env mode s"
    using retired_setMode [of s h v env mode] fire_retired by blast
  have b: "updateMarker i snapToRest s =
     s\<lparr>earthquakeMarkers :=
         (earthquakeMarkers s)[i := (earthquakeMarkers s ! i)
            \<lparr>position := originalPosition (earthquakeMarkers s ! i)\<rparr>]\<rparr>"
    by (simp add: updateMarker_def snapToRest_def)
  from a b intervals_setMode [of s mode v env] stale_pulse [of s v e i st d]
    stale_fall [of s v e i sy ty d st] pending_setMode [of s x v env mode]
  show ?thesis by blast
qed

lemma chaos1_eq:
  "chaos1 = scene1\<lparr>currentMode := ''chaos'',
     earthquakeMarkers := [(newMarker MapRev quake1)\<lparr>depthLine := Some (Fin 0.3)\<rparr>],
     timers := [(1, AnimationFrame (Pulse 0 (Fin 0) (Fin 500))),
                (2, Timeout (Fin 1500) (ChaosBurst 0))],
     nextTimer := 3\<rparr>"
  by (simp add: chaos1_def setMode_def enterMode_def startChaosMode_def chaosMarker_def pulse_def
      resetMarkers_def clearModeInterval_def scene1_def constructor_def register_def
      updateMarker_def resetMarker_def newMarker_def quake1_def Let_def env0_def js_gt_def js_pi_def)

theorem stale_tasks_witness:
  "wf_timers hist1 \<and> modeInterval hist1 = Some 1 \<and>
   fire MapRev fenv2 1 (setMode MapRev env0 ''explorer'' hist1) =
     setMode MapRev env0 ''explorer'' hist1 \<and>
   timers (setMode MapRev env0 ''explorer'' hist1) = [] \<and>
   (2, Timeout (Fin 1500) (ChaosBurst 0)) \<in> set (timers (setMode MapRev env0 ''explorer'' chaos1)) \<and>
   currentMode (setMode MapRev env0 ''explorer'' chaos1) = ''explorer'' \<and>
   runTask MapRev fenv2 (Pulse 0 (Fin 0) (Fin 500)) (setMode MapRev env0 ''explorer'' chaos1) =
     Inr (setMode MapRev env0 ''explorer'' chaos1) \<and>
   runTask MapRev fenv2 (Fall 0 (Fin 80) (Fin 0) (Fin 3000) (Fin 0))
       (setMode MapRev env0 ''explorer'' chaos1) =
     Inr (setMode MapRev env0 ''explorer'' chaos1)"
proof -
  let ?e = "setMode MapRev env0 ''explorer'' chaos1"
  have wf1: "wf_timers scene1"
    by (simp add: wf_timers_def scene1_def constructor_def)
  then have wf: "wf_timers hist1"
    unfolding hist1_def by (rule wf_timers_setMode)
  have mi: "modeInterval hist1 = Some 1"
    unfolding hist1_def modeInterval_setMode [OF wf1] by (simp add: scene1_def constructor_def)
  have tm: "timers hist1 = [(1, Interval (Fin 120) HistoryTick)]"
    by (simp add: hist1_def setMode_def enterMode_def startHistoryMode_def resetMarkers_def
        clearModeInterval_def register_def scene1_def constructor_def Let_def)
  have t0: "timers (setMode MapRev env0 ''explorer'' hist1) = []"
    by (simp add: setMode_def enterMode_def resetMarkers_def clearModeInterval_def
        clearInterval_def mi tm)
  have e: "?e = chaos1\<lparr>currentMode := ''explorer'',
      earthquakeMarkers := [newMarker MapRev quake1]\<rparr>"
    by (simp add: setMode_def enterMode_def resetMarkers_def clearModeInterval_def chaos1_eq
        scene1_def constructor_def resetMarker_def newMarker_def Let_def)
  have md: "currentMode ?e = ''explorer''" unfolding e by simp
  have snap: "updateMarker 0 snapToRest ?e = ?e"
    unfolding e by (simp add: updateMarker_def snapToRest_def newMarker_def Let_def)
  note inst1 = stale_tasks [where s = hist1 and h = 1 and v = MapRev and e = fenv2 and env = env0
      and mode = "''explorer''"]
  note inst2 = stale_tasks [where s = ?e and v = MapRev and e = fenv2 and i = 0 and st = "Fin 0"
      and d = "Fin 500"]
  note inst3 = stale_tasks [where s = ?e and v = MapRev and e = fenv2 and i = 0 and sy = "Fin 80"
      and ty = "Fin 0" and d = "Fin 3000" and st = "Fin 0"]
  from inst1 wf mi have a: "fire MapRev fenv2 1 (setMode MapRev env0 ''explorer'' hist1) =
     setMode MapRev env0 ''explorer'' hist1"
    by blast
  from inst2 md have b: "runTask MapRev fenv2 (Pulse 0 (Fin 0) (Fin 500)) ?e = Inr ?e"
    by simp
  from inst3 md have c: "runTask MapRev fenv2 (Fall 0 (Fin 80) (Fin 0) (Fin 3000) (Fin 0)) ?e =
      Inr (updateMarker 0 snapToRest ?e)"
    by simp
  have wfc: "wf_timers chaos1"
    unfolding chaos1_def using wf1 by (rule wf_timers_setMode)
  have "(2, Timeout (Fin 1500) (ChaosBurst 0)) \<in> set (timers chaos1)"
    by (simp add: chaos1_eq)
  with wfc stale_tasks [where s = chaos1 and x = "(2, Timeout (Fin 1500) (ChaosBurst 0))"
      and v = MapRev and env = env0 and mode = "''explorer''"]
  have k: "(2, Timeout (Fin 1500) (ChaosBurst 0)) \<in> set (timers ?e)"
    by simp
  from wf mi a t0 md b c k show ?thesis by (simp only: snap simp_thms)
qed

text \<open>
  C1 as stated fails. One marker of magnitude 2; Chaos mode is entered with the random
  draw 0.96 for the burst and 0.5 for its delay, so a burst timeout of 1500 ms is
  registered under handle 2. The switch to Explorer mode leaves the timers as they are,
  and when the timeout fires in Explorer mode it appends a burst of 100 particles.
\<close>

theorem stale_burst_counterexample:
  "timers chaos1 = [(1, AnimationFrame (Pulse 0 (Fin 0) (Fin 500))),
                    (2, Timeout (Fin 1500) (ChaosBurst 0))] \<and>
   currentMode (setMode MapRev env0 ''explorer'' chaos1) = ''explorer'' \<and>
   timers (setMode MapRev env0 ''explorer'' chaos1) = timers chaos1 \<and>
   particleSystems (setMode MapRev env0 ''explorer'' chaos1) = [] \<and>
   particleSystems (fire MapRev fenv2 2 (setMode MapRev env0 ''explorer'' chaos1)) \<noteq>
     particleSystems (setMode MapRev env0 ''explorer'' chaos1) \<and>
   particleSystems (fire MapRev fenv2 2 (setMode MapRev env0 ''explorer'' chaos1)) =
     [newBurst MapRev sparks0 (markerPosition MapRev quake1) (Fin 1) (Fin 10)] \<and>
   length (positions (newBurst MapRev sparks0 (markerPosition MapRev quake1) (Fin 1) (Fin 10))) =
     100"
proof -
  let ?e = "setMode MapRev env0 ''explorer'' chaos1"
  have e: "?e = chaos1\<lparr>currentMode := ''explorer'',
      earthquakeMarkers := [newMarker MapRev quake1]\<rparr>"
    by (simp add: setMode_def enterMode_def resetMarkers_def clearModeInterval_def chaos1_eq
        scene1_def constructor_def resetMarker_def newMarker_def Let_def)
  have f: "particleSystems (fire MapRev fenv2 2 ?e) =
     [newBurst MapRev sparks0 (markerPosition MapRev quake1) (Fin 1) (Fin 10)]"
    unfolding e
    by (simp add: chaos1_eq fire_def clearInterval_def burstAt_def createParticleExplosion_def
        scene1_def constructor_def newMarker_def quake1_def fenv2_def Let_def)
  have n: "length (positions (newBurst MapRev sparks0 (markerPosition MapRev quake1) (Fin 1) (Fin 10))) = 100"
    by (simp add: newBurst_def Let_def)
  have t: "timers ?e = timers chaos1" "particleSystems ?e = []" "currentMode ?e = ''explorer''"
    unfolding e by (simp_all add: chaos1_eq scene1_def constructor_def)
  have c: "timers chaos1 = [(1, AnimationFrame (Pulse 0 (Fin 0) (Fin 500))),
                    (2, Timeout (Fin 1500) (ChaosBurst 0))]"
    by (simp add: chaos1_eq)
  from f n t c show ?thesis by simp
qed

end
